theory Spec2Isabelle
  imports Main "HOL-Library.Word"
begin

section \<open>Go integers and the strconv conversions\<close>

text \<open>
  The per-key contract (token-erc-20\_peer.go, token-erc-20.go, token-erc-20-sc.go) keeps
  every amount in a Go \<^verbatim>\<open>int\<close>. On the 64-bit platforms a Fabric peer runs on this is a
  signed 64-bit integer whose arithmetic wraps around silently. An \<^verbatim>\<open>int\<close> is modelled
  as an Isabelle \<open>int\<close> between \<open>minInt\<close> and \<open>maxInt\<close>; the result of every
  \<^verbatim>\<open>+=\<close> and \<^verbatim>\<open>-=\<close> goes through \<open>wrap\<close>.
\<close>

definition intSize :: nat where
  "intSize = 64"

definition maxInt :: int where
  "maxInt = 2 ^ 63 - 1"

definition minInt :: int where
  "minInt = - (2 ^ 63)"

definition wrap :: "int \<Rightarrow> int" where
  "wrap x = (x + 2 ^ 63) mod 2 ^ 64 - 2 ^ 63"

definition inInt :: "int \<Rightarrow> bool" where
  "inInt x = (minInt \<le> x \<and> x \<le> maxInt)"

datatype strconv_err = ErrSyntax | ErrRange

definition isDigit :: "char \<Rightarrow> bool" where
  "isDigit c = (48 \<le> (of_char c :: nat) \<and> (of_char c :: nat) \<le> 57)"

definition digitVal :: "char \<Rightarrow> nat" where
  "digitVal c = of_char c - 48"

text \<open>The digit table \<^verbatim>\<open>strconv\<close> formats with.\<close>

definition digits :: string where
  "digits = ''0123456789''"

definition digitChar :: "nat \<Rightarrow> char" where
  "digitChar d = digits ! d"

text \<open>
  The loop of \<^verbatim>\<open>strconv.ParseUint\<close> for base 10: a byte that is no digit is a syntax
  error with value 0; \<^verbatim>\<open>n >= cutoff\<close> (with cutoff = maxUint64/10 + 1) and
  \<^verbatim>\<open>n1 < n || n1 > maxVal\<close> are range errors with value \<open>maxVal\<close>. In the source
  \<^verbatim>\<open>n1\<close> is a uint64 and \<^verbatim>\<open>n1 < n\<close> detects its wrap-around; on \<open>nat\<close> both
  tests are \<open>n1 > maxVal\<close>, since \<open>maxVal < 2 ^ 64\<close>.
\<close>

definition cutoff :: nat where
  "cutoff = (2 ^ 64 - 1) div 10 + 1"

fun ParseUint_loop :: "nat \<Rightarrow> nat \<Rightarrow> string \<Rightarrow> nat \<times> strconv_err option" where
  "ParseUint_loop maxVal n [] = (n, None)"
| "ParseUint_loop maxVal n (c # cs) =
     (if \<not> isDigit c then (0, Some ErrSyntax)
      else if n \<ge> cutoff then (maxVal, Some ErrRange)
      else let n1 = n * 10 + digitVal c in
        if n1 > maxVal then (maxVal, Some ErrRange)
        else ParseUint_loop maxVal n1 cs)"

text \<open>\<^verbatim>\<open>strconv.ParseUint(s, 10, bitSize)\<close>: the value and the error.\<close>

definition ParseUint :: "string \<Rightarrow> nat \<Rightarrow> nat \<times> strconv_err option" where
  "ParseUint s bitSize =
     (if s = [] then (0, Some ErrSyntax)
      else ParseUint_loop (2 ^ bitSize - 1) 0 s)"

text \<open>
  \<^verbatim>\<open>strconv.ParseInt(s, 10, 0)\<close>: an optional sign, then \<^verbatim>\<open>ParseUint\<close>; a syntax
  error gives 0, a value out of range gives the nearest bound with a range error.
\<close>

definition ParseInt :: "string \<Rightarrow> int \<times> strconv_err option" where
  "ParseInt s =
     (case s of
        [] \<Rightarrow> (0, Some ErrSyntax)
      | c # cs \<Rightarrow>
          let neg = (c = CHR ''-'');
              s1 = (if c = CHR ''+'' \<or> c = CHR ''-'' then cs else s);
              (un, err) = ParseUint s1 intSize
          in if err = Some ErrSyntax then (0, err)
             else if \<not> neg \<and> un \<ge> 2 ^ (intSize - 1) then (2 ^ (intSize - 1) - 1, Some ErrRange)
             else if neg \<and> un > 2 ^ (intSize - 1) then (- (2 ^ (intSize - 1)), Some ErrRange)
             else (if neg then - int un else int un, None))"

text \<open>
  \<^verbatim>\<open>strconv.Atoi\<close> is \<^verbatim>\<open>ParseInt(s, 10, 0)\<close>; its fast path for short strings
  returns the same value and the same kind of error.
\<close>

definition Atoi :: "string \<Rightarrow> int \<times> strconv_err option" where
  "Atoi s = ParseInt s"

text \<open>The decimal digits of a number, most significant first, \<open>''0''\<close> for 0.\<close>

fun FormatUint :: "nat \<Rightarrow> string" where
  "FormatUint n =
     (if n < 10 then [digitChar n]
      else FormatUint (n div 10) @ [digitChar (n mod 10)])"

declare FormatUint.simps [simp del]

text \<open>\<^verbatim>\<open>strconv.Itoa\<close>.\<close>

definition Itoa :: "int \<Rightarrow> string" where
  "Itoa i = (if i < 0 then CHR ''-'' # FormatUint (nat (- i)) else FormatUint (nat i))"

section \<open>The chaincode stub\<close>

text \<open>
  The contract reaches the ledger only through \<^verbatim>\<open>shim.ChaincodeStubInterface\<close>. The stub
  is a record of the world state (key to stored bytes), the event attached to the
  invocation, and the bytes of the caller's identity. Every stub call of the source can
  return an error; which calls fail, and with which text, is the host's business, so the
  record also carries the host's answer for each call. A failed call changes nothing.
  The record is polymorphic in the stored values and in the event payload: the per-key
  contract stores decimal strings and attaches a marshalled \<^verbatim>\<open>event\<close> struct.
\<close>

record ('v, 'e) stub =
  state :: "string \<rightharpoonup> 'v"
  event :: "(string \<times> 'e) option"
  txCreator :: string
  getStateErr :: "string \<Rightarrow> string option"
  putStateErr :: "string \<Rightarrow> string option"
  setEventErr :: "string \<Rightarrow> string option"
  getCreatorErr :: "string option"

definition GetState :: "('v, 'e) stub \<Rightarrow> string \<Rightarrow> string + 'v option" where
  "GetState stub key =
     (case getStateErr stub key of
        Some e \<Rightarrow> Inl e
      | None \<Rightarrow> Inr (state stub key))"

definition PutState :: "('v, 'e) stub \<Rightarrow> string \<Rightarrow> 'v \<Rightarrow> string + ('v, 'e) stub" where
  "PutState stub key v =
     (case putStateErr stub key of
        Some e \<Rightarrow> Inl e
      | None \<Rightarrow> Inr (stub\<lparr>state := (state stub)(key \<mapsto> v)\<rparr>))"

definition SetEvent :: "('v, 'e) stub \<Rightarrow> string \<Rightarrow> 'e \<Rightarrow> string + ('v, 'e) stub" where
  "SetEvent stub name payload =
     (case setEventErr stub name of
        Some e \<Rightarrow> Inl e
      | None \<Rightarrow> Inr (stub\<lparr>event := Some (name, payload)\<rparr>))"

definition GetCreator :: "('v, 'e) stub \<Rightarrow> string + string" where
  "GetCreator stub =
     (case getCreatorErr stub of
        Some e \<Rightarrow> Inl e
      | None \<Rightarrow> Inr (txCreator stub))"

text \<open>
  \<^verbatim>\<open>peer.Response\<close>: \<^verbatim>\<open>shim.Success(payload)\<close> with the payload bytes (\<open>None\<close> for
  \<^verbatim>\<open>nil\<close>), or \<^verbatim>\<open>shim.Error(msg)\<close>. \<open>Error m\<close> is a message the source writes as a
  literal. Where the source builds the message from an error value, the response is
  \<open>Errorf\<close> with the format and the error: \<^verbatim>\<open>shim.Error(err.Error())\<close> is
  \<open>Errorf ''%s'' err\<close>, and \<^verbatim>\<open>shim.Error(fmt.Sprintf("Invalid amount: %s", err))\<close> is
  \<open>Errorf ''Invalid amount: %s'' err\<close>. An error value is a \<^verbatim>\<open>*strconv.NumError\<close> or an
  error returned by the stub, with its text.
\<close>

datatype go_error = NumError (Func: string) (Num: string) (Err: strconv_err) | StubError string

datatype response = Success "string option" | Error string | Errorf string go_error

section \<open>The per-key contract (token-erc-20\_peer.go)\<close>

definition nameKey :: string where
  "nameKey = ''name''"

definition symbolKey :: string where
  "symbolKey = ''symbol''"

definition decimalsKey :: string where
  "decimalsKey = ''decimals''"

definition totalSupplyKey :: string where
  "totalSupplyKey = ''totalSupply''"

definition allowancePrefix :: string where
  "allowancePrefix = ''allowance''"

text \<open>
  The \<^verbatim>\<open>event\<close> struct. The source attaches \<^verbatim>\<open>json.Marshal(eventData)\<close>; the encoding
  of a struct of two strings and an int cannot fail, and the model keeps the struct
  itself as the payload.
\<close>

record event =
  From :: string
  To :: string
  Value :: int

type_synonym kvstub = "(string, event) stub"

text \<open>
  \<^verbatim>\<open>Mint(APIstub, args)\<close> with \<^verbatim>\<open>args = [minter, amount]\<close>. A missing balance reads
  as 0; the error of \<^verbatim>\<open>Atoi\<close> on the stored bytes is dropped as in the source.
\<close>

definition Mint :: "kvstub \<Rightarrow> string list \<Rightarrow> response \<times> kvstub" where
  "Mint APIstub args =
     (if length args \<noteq> 2 then (Error ''Incorrect number of arguments. Expecting 2'', APIstub)
      else
        let minter = args ! 0;
            (amount, err) = Atoi (args ! 1)
        in if err \<noteq> None then (Error ''Invalid amount. Expecting a numeric string'', APIstub)
        else case GetState APIstub minter of
          Inl e \<Rightarrow> (Errorf ''%s'' (StubError e), APIstub)
        | Inr balanceBytes \<Rightarrow>
            let balance = (case balanceBytes of None \<Rightarrow> 0 | Some b \<Rightarrow> fst (Atoi b));
                balance = wrap (balance + amount)
            in case PutState APIstub minter (Itoa balance) of
              Inl e \<Rightarrow> (Errorf ''%s'' (StubError e), APIstub)
            | Inr stub1 \<Rightarrow>
                (case SetEvent stub1 ''Transfer'' \<lparr>From = [], To = minter, Value = amount\<rparr> of
                   Inl e \<Rightarrow> (Errorf ''%s'' (StubError e), stub1)
                 | Inr stub2 \<Rightarrow> (Success None, stub2)))"

text \<open>\<^verbatim>\<open>Burn(APIstub, args)\<close> with \<^verbatim>\<open>args = [minter, amount]\<close>.\<close>

definition Burn :: "kvstub \<Rightarrow> string list \<Rightarrow> response \<times> kvstub" where
  "Burn APIstub args =
     (if length args \<noteq> 2 then (Error ''Incorrect number of arguments. Expecting 2'', APIstub)
      else
        let minter = args ! 0;
            (amount, err) = Atoi (args ! 1)
        in if err \<noteq> None then (Error ''Invalid amount. Expecting a numeric string'', APIstub)
        else case GetState APIstub minter of
          Inl e \<Rightarrow> (Errorf ''%s'' (StubError e), APIstub)
        | Inr None \<Rightarrow> (Error ''Account not found'', APIstub)
        | Inr (Some balanceBytes) \<Rightarrow>
            let balance = fst (Atoi balanceBytes)
            in if balance < amount then (Error ''Insufficient balance'', APIstub)
            else
              let balance = wrap (balance - amount)
              in case PutState APIstub minter (Itoa balance) of
                Inl e \<Rightarrow> (Errorf ''%s'' (StubError e), APIstub)
              | Inr stub1 \<Rightarrow>
                  (case SetEvent stub1 ''Transfer'' \<lparr>From = minter, To = [], Value = amount\<rparr> of
                     Inl e \<Rightarrow> (Errorf ''%s'' (StubError e), stub1)
                   | Inr stub2 \<Rightarrow> (Success None, stub2)))"

text \<open>
  \<^verbatim>\<open>Transfer(APIstub, args)\<close> with \<^verbatim>\<open>args = [from, to, amount]\<close>. Both balances are
  read before the test and both are written afterwards, the recipient's last.
\<close>

definition Transfer :: "kvstub \<Rightarrow> string list \<Rightarrow> response \<times> kvstub" where
  "Transfer APIstub args =
     (if length args \<noteq> 3 then (Error ''Incorrect number of arguments. Expecting 3'', APIstub)
      else
        let from = args ! 0;
            to = args ! 1;
            (amount, err) = Atoi (args ! 2)
        in if err \<noteq> None then (Error ''Invalid amount. Expecting a numeric string'', APIstub)
        else case GetState APIstub from of
          Inl e \<Rightarrow> (Errorf ''%s'' (StubError e), APIstub)
        | Inr None \<Rightarrow> (Error ''Sender account not found'', APIstub)
        | Inr (Some fromBalanceBytes) \<Rightarrow>
            let fromBalance = fst (Atoi fromBalanceBytes)
            in case GetState APIstub to of
              Inl e \<Rightarrow> (Errorf ''%s'' (StubError e), APIstub)
            | Inr toBalanceBytes \<Rightarrow>
                let toBalance = (case toBalanceBytes of None \<Rightarrow> 0 | Some b \<Rightarrow> fst (Atoi b))
                in if fromBalance < amount then (Error ''Insufficient balance'', APIstub)
                else
                  let fromBalance = wrap (fromBalance - amount);
                      toBalance = wrap (toBalance + amount)
                  in case PutState APIstub from (Itoa fromBalance) of
                    Inl e \<Rightarrow> (Errorf ''%s'' (StubError e), APIstub)
                  | Inr stub1 \<Rightarrow>
                      (case PutState stub1 to (Itoa toBalance) of
                         Inl e \<Rightarrow> (Errorf ''%s'' (StubError e), stub1)
                       | Inr stub2 \<Rightarrow>
                           (case SetEvent stub2 ''Transfer'' \<lparr>From = from, To = to, Value = amount\<rparr> of
                              Inl e \<Rightarrow> (Errorf ''%s'' (StubError e), stub2)
                            | Inr stub3 \<Rightarrow> (Success None, stub3))))"

text \<open>\<^verbatim>\<open>BalanceOf(APIstub, args)\<close> with \<^verbatim>\<open>args = [account]\<close>.\<close>

definition BalanceOf :: "kvstub \<Rightarrow> string list \<Rightarrow> response \<times> kvstub" where
  "BalanceOf APIstub args =
     (if length args \<noteq> 1 then (Error ''Incorrect number of arguments. Expecting 1'', APIstub)
      else
        let account = args ! 0
        in case GetState APIstub account of
          Inl e \<Rightarrow> (Errorf ''%s'' (StubError e), APIstub)
        | Inr None \<Rightarrow> (Error ''Account not found'', APIstub)
        | Inr (Some balanceBytes) \<Rightarrow> (Success (Some balanceBytes), APIstub))"

definition ClientAccountBalance :: "kvstub \<Rightarrow> string list \<Rightarrow> response \<times> kvstub" where
  "ClientAccountBalance APIstub args =
     (case GetCreator APIstub of
        Inl e \<Rightarrow> (Error ''Failed to get client's certificate'', APIstub)
      | Inr cert \<Rightarrow> BalanceOf APIstub [cert])"

definition ClientAccountID :: "kvstub \<Rightarrow> string list \<Rightarrow> response \<times> kvstub" where
  "ClientAccountID APIstub args =
     (case GetCreator APIstub of
        Inl e \<Rightarrow> (Error ''Failed to get client's certificate'', APIstub)
      | Inr cert \<Rightarrow> (Success (Some cert), APIstub))"

definition TotalSupply :: "kvstub \<Rightarrow> string list \<Rightarrow> response \<times> kvstub" where
  "TotalSupply APIstub args =
     (case GetState APIstub totalSupplyKey of
        Inl e \<Rightarrow> (Error ''Failed to get total supply'', APIstub)
      | Inr None \<Rightarrow> (Error ''Total supply not set'', APIstub)
      | Inr (Some totalSupplyBytes) \<Rightarrow> (Success (Some totalSupplyBytes), APIstub))"

text \<open>\<^verbatim>\<open>Approve(APIstub, args)\<close> with \<^verbatim>\<open>args = [owner, spender, amount]\<close>.\<close>

definition Approve :: "kvstub \<Rightarrow> string list \<Rightarrow> response \<times> kvstub" where
  "Approve APIstub args =
     (if length args \<noteq> 3 then (Error ''Incorrect number of arguments. Expecting 3'', APIstub)
      else
        let owner = args ! 0;
            spender = args ! 1;
            (amount, err) = Atoi (args ! 2)
        in if err \<noteq> None then (Error ''Invalid amount. Expecting a numeric string'', APIstub)
        else
          let allowanceKey = allowancePrefix @ owner @ spender
          in case PutState APIstub allowanceKey (Itoa amount) of
            Inl e \<Rightarrow> (Error ''Failed to set allowance'', APIstub)
          | Inr stub1 \<Rightarrow> (Success None, stub1))"

text \<open>\<^verbatim>\<open>Allowance(APIstub, args)\<close> with \<^verbatim>\<open>args = [owner, spender]\<close>.\<close>

definition Allowance :: "kvstub \<Rightarrow> string list \<Rightarrow> response \<times> kvstub" where
  "Allowance APIstub args =
     (if length args \<noteq> 2 then (Error ''Incorrect number of arguments. Expecting 2'', APIstub)
      else
        let owner = args ! 0;
            spender = args ! 1;
            allowanceKey = allowancePrefix @ owner @ spender
        in case GetState APIstub allowanceKey of
          Inl e \<Rightarrow> (Error ''Failed to get allowance'', APIstub)
        | Inr None \<Rightarrow> (Error ''Allowance not found'', APIstub)
        | Inr (Some allowanceBytes) \<Rightarrow> (Success (Some allowanceBytes), APIstub))"

text \<open>
  \<^verbatim>\<open>TransferFrom(APIstub, args)\<close> with \<^verbatim>\<open>args = [owner, spender, to, amount]\<close>. The
  allowance is tested first, then both balances are read and the owner's is tested; the
  three writes follow: owner, recipient, allowance.
\<close>

definition TransferFrom :: "kvstub \<Rightarrow> string list \<Rightarrow> response \<times> kvstub" where
  "TransferFrom APIstub args =
     (if length args \<noteq> 4 then (Error ''Incorrect number of arguments. Expecting 4'', APIstub)
      else
        let owner = args ! 0;
            spender = args ! 1;
            to = args ! 2;
            (amount, err) = Atoi (args ! 3)
        in if err \<noteq> None then (Error ''Invalid amount. Expecting a numeric string'', APIstub)
        else
          let allowanceKey = allowancePrefix @ owner @ spender
          in case GetState APIstub allowanceKey of
            Inl e \<Rightarrow> (Error ''Failed to get allowance'', APIstub)
          | Inr None \<Rightarrow> (Error ''Allowance not found'', APIstub)
          | Inr (Some allowanceBytes) \<Rightarrow>
              let allowance = fst (Atoi allowanceBytes)
              in if allowance < amount then (Error ''Allowance exceeded'', APIstub)
              else case GetState APIstub owner of
                Inl e \<Rightarrow> (Errorf ''%s'' (StubError e), APIstub)
              | Inr None \<Rightarrow> (Error ''Owner account not found'', APIstub)
              | Inr (Some fromBalanceBytes) \<Rightarrow>
                  let fromBalance = fst (Atoi fromBalanceBytes)
                  in case GetState APIstub to of
                    Inl e \<Rightarrow> (Errorf ''%s'' (StubError e), APIstub)
                  | Inr toBalanceBytes \<Rightarrow>
                      let toBalance = (case toBalanceBytes of None \<Rightarrow> 0 | Some b \<Rightarrow> fst (Atoi b))
                      in if fromBalance < amount then (Error ''Insufficient balance'', APIstub)
                      else
                        let fromBalance = wrap (fromBalance - amount);
                            toBalance = wrap (toBalance + amount)
                        in case PutState APIstub owner (Itoa fromBalance) of
                          Inl e \<Rightarrow> (Errorf ''%s'' (StubError e), APIstub)
                        | Inr stub1 \<Rightarrow>
                            (case PutState stub1 to (Itoa toBalance) of
                               Inl e \<Rightarrow> (Errorf ''%s'' (StubError e), stub1)
                             | Inr stub2 \<Rightarrow>
                                 let allowance = wrap (allowance - amount)
                                 in case PutState stub2 allowanceKey (Itoa allowance) of
                                   Inl e \<Rightarrow> (Error ''Failed to update allowance'', stub2)
                                 | Inr stub3 \<Rightarrow>
                                     (case SetEvent stub3 ''Transfer''
                                             \<lparr>From = owner, To = to, Value = amount\<rparr> of
                                        Inl e \<Rightarrow> (Errorf ''%s'' (StubError e), stub3)
                                      | Inr stub4 \<Rightarrow> (Success None, stub4))))"

definition Name :: "kvstub \<Rightarrow> string list \<Rightarrow> response \<times> kvstub" where
  "Name APIstub args =
     (case GetState APIstub nameKey of
        Inl e \<Rightarrow> (Error ''Failed to get token name'', APIstub)
      | Inr None \<Rightarrow> (Error ''Token name not set'', APIstub)
      | Inr (Some nameBytes) \<Rightarrow> (Success (Some nameBytes), APIstub))"

definition Symbol :: "kvstub \<Rightarrow> string list \<Rightarrow> response \<times> kvstub" where
  "Symbol APIstub args =
     (case GetState APIstub symbolKey of
        Inl e \<Rightarrow> (Error ''Failed to get token symbol'', APIstub)
      | Inr None \<Rightarrow> (Error ''Token symbol not set'', APIstub)
      | Inr (Some symbolBytes) \<Rightarrow> (Success (Some symbolBytes), APIstub))"

text \<open>
  \<^verbatim>\<open>Initialize(APIstub, args)\<close> with \<^verbatim>\<open>args = [name, symbol, decimals, totalSupply]\<close>:
  four writes of metadata, no balance is credited.
\<close>

definition Initialize :: "kvstub \<Rightarrow> string list \<Rightarrow> response \<times> kvstub" where
  "Initialize APIstub args =
     (if length args \<noteq> 4 then (Error ''Incorrect number of arguments. Expecting 4'', APIstub)
      else
        let name = args ! 0;
            symbol = args ! 1;
            (decimals, err) = Atoi (args ! 2)
        in if err \<noteq> None then (Error ''Invalid decimals. Expecting a numeric string'', APIstub)
        else
          let (totalSupply, err) = Atoi (args ! 3)
          in if err \<noteq> None
            then (Error ''Invalid total supply. Expecting a numeric string'', APIstub)
          else case PutState APIstub nameKey name of
            Inl e \<Rightarrow> (Error ''Failed to set token name'', APIstub)
          | Inr stub1 \<Rightarrow>
              (case PutState stub1 symbolKey symbol of
                 Inl e \<Rightarrow> (Error ''Failed to set token symbol'', stub1)
               | Inr stub2 \<Rightarrow>
                   (case PutState stub2 decimalsKey (Itoa decimals) of
                      Inl e \<Rightarrow> (Error ''Failed to set token decimals'', stub2)
                    | Inr stub3 \<Rightarrow>
                        (case PutState stub3 totalSupplyKey (Itoa totalSupply) of
                           Inl e \<Rightarrow> (Error ''Failed to set token total supply'', stub3)
                         | Inr stub4 \<Rightarrow> (Success None, stub4)))))"

text \<open>\<^verbatim>\<open>Invoke\<close>: the switch on the function name.\<close>

definition Invoke :: "kvstub \<Rightarrow> string \<Rightarrow> string list \<Rightarrow> response \<times> kvstub" where
  "Invoke APIstub function args =
     (if function = ''Mint'' then Mint APIstub args
      else if function = ''Burn'' then Burn APIstub args
      else if function = ''Transfer'' then Transfer APIstub args
      else if function = ''BalanceOf'' then BalanceOf APIstub args
      else if function = ''ClientAccountBalance'' then ClientAccountBalance APIstub args
      else if function = ''ClientAccountID'' then ClientAccountID APIstub args
      else if function = ''TotalSupply'' then TotalSupply APIstub args
      else if function = ''Approve'' then Approve APIstub args
      else if function = ''Allowance'' then Allowance APIstub args
      else if function = ''TransferFrom'' then TransferFrom APIstub args
      else if function = ''Name'' then Name APIstub args
      else if function = ''Symbol'' then Symbol APIstub args
      else if function = ''Initialize'' then Initialize APIstub args
      else (Error ''Invalid function name'', APIstub))"

subsection \<open>The variant of token-erc-20-sc.go\<close>

text \<open>
  In token-erc-20-sc.go Mint, Burn, Transfer, BalanceOf, TotalSupply, Approve and Allowance
  have the bodies above. Its \<^verbatim>\<open>TransferFrom\<close> differs: \<^verbatim>\<open>args = [from, to, amount, owner]\<close>,
  the allowance key is built from \<^verbatim>\<open>owner\<close> and \<^verbatim>\<open>from\<close>, the debited balance is the one
  stored under \<^verbatim>\<open>from\<close>, and the balance test precedes the read of the recipient. The file
  does not declare \<^verbatim>\<open>allowancePrefix\<close>; the constant of the sibling file is used.
\<close>

definition TransferFrom_sc :: "kvstub \<Rightarrow> string list \<Rightarrow> response \<times> kvstub" where
  "TransferFrom_sc APIstub args =
     (if length args \<noteq> 4 then (Error ''Incorrect number of arguments. Expecting 4'', APIstub)
      else
        let from = args ! 0;
            to = args ! 1;
            (amount, err) = Atoi (args ! 2)
        in if err \<noteq> None then (Error ''Invalid amount. Expecting a numeric string'', APIstub)
        else
          let owner = args ! 3;
              allowanceKey = allowancePrefix @ owner @ from
          in case GetState APIstub allowanceKey of
            Inl e \<Rightarrow> (Error ''Failed to get allowance'', APIstub)
          | Inr None \<Rightarrow> (Error ''Allowance not found'', APIstub)
          | Inr (Some allowanceBytes) \<Rightarrow>
              let allowance = fst (Atoi allowanceBytes)
              in if allowance < amount then (Error ''Insufficient allowance'', APIstub)
              else case GetState APIstub from of
                Inl e \<Rightarrow> (Errorf ''%s'' (StubError e), APIstub)
              | Inr None \<Rightarrow> (Error ''Sender account not found'', APIstub)
              | Inr (Some fromBalanceBytes) \<Rightarrow>
                  let fromBalance = fst (Atoi fromBalanceBytes)
                  in if fromBalance < amount then (Error ''Insufficient balance'', APIstub)
                  else case GetState APIstub to of
                    Inl e \<Rightarrow> (Errorf ''%s'' (StubError e), APIstub)
                  | Inr toBalanceBytes \<Rightarrow>
                      let toBalance = (case toBalanceBytes of None \<Rightarrow> 0 | Some b \<Rightarrow> fst (Atoi b));
                          fromBalance = wrap (fromBalance - amount);
                          toBalance = wrap (toBalance + amount);
                          allowance = wrap (allowance - amount)
                      in case PutState APIstub from (Itoa fromBalance) of
                        Inl e \<Rightarrow> (Errorf ''%s'' (StubError e), APIstub)
                      | Inr stub1 \<Rightarrow>
                          (case PutState stub1 to (Itoa toBalance) of
                             Inl e \<Rightarrow> (Errorf ''%s'' (StubError e), stub1)
                           | Inr stub2 \<Rightarrow>
                               (case PutState stub2 allowanceKey (Itoa allowance) of
                                  Inl e \<Rightarrow> (Errorf ''%s'' (StubError e), stub2)
                                | Inr stub3 \<Rightarrow>
                                    (case SetEvent stub3 ''Transfer''
                                            \<lparr>From = from, To = to, Value = amount\<rparr> of
                                       Inl e \<Rightarrow> (Errorf ''%s'' (StubError e), stub3)
                                     | Inr stub4 \<Rightarrow> (Success None, stub4)))))"

text \<open>
  The integer the source reads from a stored value: \<^verbatim>\<open>strconv.Atoi\<close> with the error
  dropped, and 0 for a key that is not stored (as the recipient's balance is read).
\<close>

definition stored :: "kvstub \<Rightarrow> string \<Rightarrow> int" where
  "stored APIstub key = (case state APIstub key of None \<Rightarrow> 0 | Some b \<Rightarrow> fst (Atoi b))"

section \<open>The map-based contract (go/token\_erc\_20.go)\<close>

text \<open>
  This contract keeps one \<^verbatim>\<open>Token\<close> struct under the key \<^verbatim>\<open>"token"\<close>, encoded with
  \<^verbatim>\<open>json.Marshal\<close> and read back with \<^verbatim>\<open>json.Unmarshal\<close>. The encoding is taken as
  lossless, so the stored value is modelled as the struct itself; \<^verbatim>\<open>json.Unmarshal\<close> of
  the \<^verbatim>\<open>nil\<close> that \<^verbatim>\<open>GetState\<close> returns for a missing key is the error
  \<^verbatim>\<open>unexpected end of JSON input\<close>, and \<^verbatim>\<open>json.Marshal\<close> of the struct cannot fail.
  Amounts are \<^verbatim>\<open>uint64\<close>: 64-bit words, whose \<open>+\<close> and \<open>-\<close> wrap around. The event
  payload is the formatted text.
\<close>

record Token =
  Token_Name :: string
  Token_Symbol :: string
  Token_Total :: "64 word"
  Token_Decimals :: "8 word"
  Token_Balance :: "string \<rightharpoonup> 64 word"

type_synonym tokenstub = "(Token, string) stub"

text \<open>Reading a Go map at a key it does not hold gives the zero value.\<close>

definition mapIndex :: "(string \<rightharpoonup> 64 word) \<Rightarrow> string \<Rightarrow> 64 word" where
  "mapIndex m k = (case m k of None \<Rightarrow> 0 | Some v \<Rightarrow> v)"

text \<open>\<^verbatim>\<open>hex.EncodeToString\<close>: two lower-case hexadecimal digits per byte.\<close>

definition hextable :: string where
  "hextable = ''0123456789abcdef''"

definition EncodeToString :: "string \<Rightarrow> string" where
  "EncodeToString src =
     concat (map (\<lambda>c. [hextable ! ((of_char c :: nat) div 16), hextable ! ((of_char c :: nat) mod 16)]) src)"

definition TokenERC20_Initialize :: "tokenstub \<Rightarrow> string list \<Rightarrow> response \<times> tokenstub" where
  "TokenERC20_Initialize stub args =
     (if length args \<noteq> 4
        then (Error ''Incorrect number of arguments. Expected 4: name, symbol, total supply, decimals'', stub)
      else
        let name = args ! 0;
            symbol = args ! 1;
            (totalSupply, err) = ParseUint (args ! 2) 64
        in if err \<noteq> None
          then (Errorf ''Invalid total supply: %s'' (NumError ''ParseUint'' (args ! 2) (the err)), stub)
        else
          let (decimals, err) = ParseUint (args ! 3) 8
          in if err \<noteq> None
            then (Errorf ''Invalid decimals: %s'' (NumError ''ParseUint'' (args ! 3) (the err)), stub)
          else
            let token = \<lparr>Token_Name = name, Token_Symbol = symbol, Token_Total = of_nat totalSupply,
                         Token_Decimals = of_nat decimals, Token_Balance = Map.empty\<rparr>
            in case GetCreator stub of
              Inl e \<Rightarrow> (Errorf ''Failed to get transaction creator information: %s'' (StubError e), stub)
            | Inr creator \<Rightarrow>
                let token = token\<lparr>Token_Balance :=
                              (Token_Balance token)(EncodeToString creator \<mapsto> of_nat totalSupply)\<rparr>
                in case PutState stub ''token'' token of
                  Inl e \<Rightarrow> (Errorf ''Failed to save state: %s'' (StubError e), stub)
                | Inr stub1 \<Rightarrow> (Success None, stub1))"

text \<open>
  \<^verbatim>\<open>Mint(stub, args)\<close> with \<^verbatim>\<open>args = [amount]\<close>: the total and the balance of the
  hex-encoded creator grow by the amount, with no test of the sums.
\<close>

definition TokenERC20_Mint :: "tokenstub \<Rightarrow> string list \<Rightarrow> response \<times> tokenstub" where
  "TokenERC20_Mint stub args =
     (if length args \<noteq> 1 then (Error ''Incorrect number of arguments. Expecting 1: amount'', stub)
      else
        let (amount, err) = ParseUint (args ! 0) 64
        in if err \<noteq> None
          then (Errorf ''Invalid amount: %s'' (NumError ''ParseUint'' (args ! 0) (the err)), stub)
        else case GetState stub ''token'' of
          Inl e \<Rightarrow> (Errorf ''Failed to get token: %s'' (StubError e), stub)
        | Inr None \<Rightarrow> (Error ''Failed to unmarshal token: unexpected end of JSON input'', stub)
        | Inr (Some token) \<Rightarrow>
            (case GetCreator stub of
               Inl e \<Rightarrow> (Errorf ''Failed to get creator: %s'' (StubError e), stub)
             | Inr creator \<Rightarrow>
                 let creatorHex = EncodeToString creator;
                     token = token\<lparr>Token_Total := Token_Total token + of_nat amount\<rparr>;
                     token = token\<lparr>Token_Balance := (Token_Balance token)
                               (creatorHex \<mapsto> mapIndex (Token_Balance token) creatorHex + of_nat amount)\<rparr>
                 in case PutState stub ''token'' token of
                   Inl e \<Rightarrow> (Errorf ''Failed to put state: %s'' (StubError e), stub)
                 | Inr stub1 \<Rightarrow>
                     (case SetEvent stub1 ''Transfer''
                             (''Minted '' @ FormatUint amount @ '' tokens to '' @ creatorHex) of
                        Inl e \<Rightarrow> (Errorf ''Failed to set event: %s'' (StubError e), stub1)
                      | Inr stub2 \<Rightarrow> (Success None, stub2))))"

text \<open>
  \<^verbatim>\<open>ClientAccountBalance(stub)\<close>: when the map has no entry for the hex-encoded creator,
  the branch \<^verbatim>\<open>if !exists\<close> adds one with balance 0 and writes the token back.
\<close>

definition TokenERC20_ClientAccountBalance :: "tokenstub \<Rightarrow> response \<times> tokenstub" where
  "TokenERC20_ClientAccountBalance stub =
     (case GetCreator stub of
        Inl e \<Rightarrow> (Errorf ''Failed to get client ID: %s'' (StubError e), stub)
      | Inr clientID \<Rightarrow>
          (case GetState stub ''token'' of
             Inl e \<Rightarrow> (Errorf ''Failed to get token: %s'' (StubError e), stub)
           | Inr None \<Rightarrow> (Error ''Failed to unmarshal token: unexpected end of JSON input'', stub)
           | Inr (Some token) \<Rightarrow>
               let clientIDHex = EncodeToString clientID
               in case Token_Balance token clientIDHex of
                 Some balance \<Rightarrow> (Success (Some (FormatUint (unat balance))), stub)
               | None \<Rightarrow>
                   let balance = 0;
                       token = token\<lparr>Token_Balance := (Token_Balance token)(clientIDHex \<mapsto> balance)\<rparr>
                   in case PutState stub ''token'' token of
                     Inl e \<Rightarrow> (Errorf ''Failed to update token state: %s'' (StubError e), stub)
                   | Inr stub1 \<Rightarrow> (Success (Some (FormatUint (unat balance))), stub1)))"

text \<open>
  \<^verbatim>\<open>transfer(stub, args)\<close> with \<^verbatim>\<open>args = [receiver, amount]\<close>. The sender's entry is
  the one keyed by the raw creator bytes, \<^verbatim>\<open>string(sender)\<close>; the two map updates are
  made one after the other.
\<close>

definition TokenERC20_transfer :: "tokenstub \<Rightarrow> string list \<Rightarrow> response \<times> tokenstub" where
  "TokenERC20_transfer stub args =
     (if length args \<noteq> 2
        then (Error ''Incorrect number of arguments. Expecting 2: to address and amount'', stub)
      else
        let (amount, err) = ParseUint (args ! 1) 64
        in if err \<noteq> None
          then (Errorf ''Invalid amount: %s'' (NumError ''ParseUint'' (args ! 1) (the err)), stub)
        else case GetState stub ''token'' of
          Inl e \<Rightarrow> (Errorf ''Failed to get token: %s'' (StubError e), stub)
        | Inr None \<Rightarrow> (Error ''Failed to unmarshal token: unexpected end of JSON input'', stub)
        | Inr (Some token) \<Rightarrow>
            (case GetCreator stub of
               Inl e \<Rightarrow> (Errorf ''Failed to get creator: %s'' (StubError e), stub)
             | Inr sender \<Rightarrow>
                 let senderBalance = mapIndex (Token_Balance token) sender
                 in if senderBalance < of_nat amount then (Error ''Insufficient balance'', stub)
                 else
                   let token = token\<lparr>Token_Balance := (Token_Balance token)
                                 (sender \<mapsto> mapIndex (Token_Balance token) sender - of_nat amount)\<rparr>;
                       receiver = args ! 0;
                       token = token\<lparr>Token_Balance := (Token_Balance token)
                                 (receiver \<mapsto> mapIndex (Token_Balance token) receiver + of_nat amount)\<rparr>
                   in case PutState stub ''token'' token of
                     Inl e \<Rightarrow> (Errorf ''Failed to put state: %s'' (StubError e), stub)
                   | Inr stub1 \<Rightarrow> (Success None, stub1)))"

section \<open>Hosts\<close>

text \<open>A stub over a given world state whose host never fails, for concrete runs.\<close>

definition reliable :: "(string \<rightharpoonup> 'v) \<Rightarrow> string \<Rightarrow> ('v, 'e) stub" where
  "reliable st cert =
     \<lparr>state = st, event = None, txCreator = cert,
      getStateErr = (\<lambda>k. None), putStateErr = (\<lambda>k. None),
      setEventErr = (\<lambda>n. None), getCreatorErr = None\<rparr>"


subsection \<open>Stubs for concrete runs\<close>

definition overflowStub :: kvstub where
  "overflowStub = reliable [''a'' \<mapsto> ''5'', ''b'' \<mapsto> ''9223372036854775807''] ''''"

definition transferStub :: kvstub where
  "transferStub = reliable [''a'' \<mapsto> ''10'', ''b'' \<mapsto> ''7''] ''''"

definition overflowFromStub :: kvstub where
  "overflowFromStub =
     reliable [''a'' \<mapsto> ''5'', ''b'' \<mapsto> ''9223372036854775807'', ''allowanceas'' \<mapsto> ''5''] ''''"

definition transferFromStub :: kvstub where
  "transferFromStub =
     reliable [''a'' \<mapsto> ''10'', ''b'' \<mapsto> ''7'', ''allowanceas'' \<mapsto> ''6''] ''''"

definition supplyStub :: kvstub where
  "supplyStub = reliable [''totalSupply'' \<mapsto> ''1000'', ''alice'' \<mapsto> ''10''] ''''"

definition goldToken :: Token where
  "goldToken =
     \<lparr>Token_Name = ''Gold'', Token_Symbol = ''GLD'', Token_Total = 1000, Token_Decimals = 2,
      Token_Balance = [''6162'' \<mapsto> 1000]\<rparr>"

definition goldStub :: tokenstub where
  "goldStub = reliable [''token'' \<mapsto> goldToken] ''ab''"

definition emptyStub :: kvstub where
  "emptyStub = reliable Map.empty ''''"

definition fullToken :: Token where
  "fullToken =
     \<lparr>Token_Name = ''Gold'', Token_Symbol = ''GLD'', Token_Total = 18446744073709551615,
      Token_Decimals = 2, Token_Balance = [''6162'' \<mapsto> 18446744073709551615]\<rparr>"

definition fullStub :: tokenstub where
  "fullStub = reliable [''token'' \<mapsto> fullToken] ''ab''"


definition strangerStub :: tokenstub where
  "strangerStub = reliable [''token'' \<mapsto> goldToken] ''cd''"

definition rawToken :: Token where
  "rawToken =
     \<lparr>Token_Name = ''Gold'', Token_Symbol = ''GLD'', Token_Total = 10, Token_Decimals = 2,
      Token_Balance = [''ab'' \<mapsto> 10]\<rparr>"

subsection \<open>Predicates of the claims\<close>

text \<open>
  The messages of the failures the contract detects itself: a wrong number of arguments,
  an argument that does not parse, a balance or an allowance that is too small or not
  stored. The literal messages that follow a failed write (\<^verbatim>\<open>Failed to set token symbol\<close>,
  \<^verbatim>\<open>Failed to update allowance\<close> and the like) are not among them.
\<close>

definition validationMessages :: "string list" where
  "validationMessages =
     [''Incorrect number of arguments. Expecting 1'',
      ''Incorrect number of arguments. Expecting 2'',
      ''Incorrect number of arguments. Expecting 3'',
      ''Incorrect number of arguments. Expecting 4'',
      ''Invalid amount. Expecting a numeric string'',
      ''Invalid decimals. Expecting a numeric string'',
      ''Invalid total supply. Expecting a numeric string'',
      ''Insufficient balance'',
      ''Allowance not found'',
      ''Allowance exceeded'',
      ''Insufficient allowance'',
      ''Account not found'',
      ''Sender account not found'',
      ''Owner account not found'']"

text \<open>
  The failures the map-based contract detects itself: the literal messages (argument
  count, no token stored, insufficient balance) and the messages built from a
  \<^verbatim>\<open>*strconv.NumError\<close>. The messages built from an error of the stub are the host's.
\<close>

fun validationFailure :: "response \<Rightarrow> bool" where
  "validationFailure (Error m) = True"
| "validationFailure (Errorf f (NumError fn num e)) = True"
| "validationFailure (Errorf f (StubError e)) = False"
| "validationFailure (Success payload) = False"

text \<open>
  Every stored value, read the way the contract reads a balance or an allowance, is at
  least 0.
\<close>

definition nonneg :: "kvstub \<Rightarrow> bool" where
  "nonneg s = (\<forall>k. 0 \<le> stored s k)"

text \<open>The amount is the last argument of Mint, Burn, Transfer, Approve and TransferFrom.\<close>

definition amountArg :: "string list \<Rightarrow> int" where
  "amountArg args = (if args = [] then 0 else fst (Atoi (last args)))"

definition nonnegMap :: "(string \<rightharpoonup> string) \<Rightarrow> bool" where
  "nonnegMap m = (\<forall>k. 0 \<le> (case m k of None \<Rightarrow> 0 | Some b \<Rightarrow> fst (Atoi b)))"

text \<open>
  The key whose balance an invocation adds the amount to, when there is one: the minter
  of Mint, the recipient of Transfer and of TransferFrom. Burn and Approve add nothing.
\<close>

definition creditedKey :: "string \<Rightarrow> string list \<Rightarrow> string option" where
  "creditedKey function args =
     (if function = ''Mint'' \<and> length args = 2 then Some (args ! 0)
      else if function = ''Transfer'' \<and> length args = 3 then Some (args ! 1)
      else if function = ''TransferFrom'' \<and> length args = 4 then Some (args ! 2)
      else None)"

text \<open>The credited balance plus the amount does not exceed the largest \<^verbatim>\<open>int\<close>.\<close>

definition creditFits :: "kvstub \<Rightarrow> string \<Rightarrow> string list \<Rightarrow> bool" where
  "creditFits s function args =
     (case creditedKey function args of
        None \<Rightarrow> True
      | Some k \<Rightarrow> stored s k + amountArg args \<le> maxInt)"

section \<open>Properties of the conversions\<close>

lemma below_ten:
  "d < 10 \<Longrightarrow> d = 0 \<or> d = 1 \<or> d = 2 \<or> d = 3 \<or> d = 4 \<or> d = 5 \<or> d = 6 \<or> d = 7 \<or> d = 8 \<or> d = (9::nat)"
  by arith

lemma isDigit_digitChar: "d < 10 \<Longrightarrow> isDigit (digitChar d)"
  by (drule below_ten) (auto simp: isDigit_def digitChar_def digits_def)

lemma digitVal_digitChar: "d < 10 \<Longrightarrow> digitVal (digitChar d) = d"
  by (drule below_ten) (auto simp: digitVal_def digitChar_def digits_def)

lemma ParseUint_loop_append:
  "ParseUint_loop m a (xs @ ys) =
     (case ParseUint_loop m a xs of
        (b, None) \<Rightarrow> ParseUint_loop m b ys
      | (b, Some e) \<Rightarrow> (b, Some e))"
  by (induction xs arbitrary: a) (simp_all add: Let_def)

lemma ParseUint_loop_FormatUint:
  "n \<le> m \<Longrightarrow> m < 2 ^ 64 \<Longrightarrow> ParseUint_loop m 0 (FormatUint n) = (n, None)"
proof (induction n rule: FormatUint.induct)
  case (1 n)
  show ?case
  proof (cases "n < 10")
    case True
    with "1.prems" show ?thesis
      by (simp add: FormatUint.simps [of n] isDigit_digitChar digitVal_digitChar cutoff_def)
  next
    case False
    have small: "n div 10 \<le> m"
      using "1.prems" by simp
    have ih: "ParseUint_loop m 0 (FormatUint (n div 10)) = (n div 10, None)"
      using "1.IH" [OF False small "1.prems"(2)] .
    have below: "\<not> n div 10 \<ge> cutoff"
      using "1.prems" by (simp add: cutoff_def)
    have recompose: "n div 10 * 10 + n mod 10 = n"
      by simp
    show ?thesis
      using False ih below "1.prems"(1)
      by (simp add: FormatUint.simps [of n] ParseUint_loop_append isDigit_digitChar
          digitVal_digitChar recompose)
  qed
qed

lemma FormatUint_not_Nil: "FormatUint n \<noteq> []"
  by (subst FormatUint.simps) simp

lemma hd_FormatUint_digit: "isDigit (hd (FormatUint n))"
proof (induction n rule: FormatUint.induct)
  case (1 n)
  show ?case
  proof (cases "n < 10")
    case True
    then show ?thesis
      by (simp add: FormatUint.simps [of n] isDigit_digitChar)
  next
    case False
    then show ?thesis
      using "1.IH" by (simp add: FormatUint.simps [of n] FormatUint_not_Nil)
  qed
qed

lemma isDigit_not_sign: "isDigit c \<Longrightarrow> c \<noteq> CHR ''-'' \<and> c \<noteq> CHR ''+''"
  by (auto simp: isDigit_def)

lemma ParseUint_FormatUint:
  "n < 2 ^ bitSize \<Longrightarrow> bitSize \<le> 64 \<Longrightarrow> ParseUint (FormatUint n) bitSize = (n, None)"
proof -
  assume n: "n < 2 ^ bitSize" and b: "bitSize \<le> 64"
  have "(2::nat) ^ bitSize \<le> 2 ^ 64"
    using b power_increasing [of bitSize 64 "2::nat"] by simp
  then have "(2::nat) ^ bitSize - 1 < 2 ^ 64"
    by (simp add: less_eq_Suc_le [symmetric])
  moreover have "n \<le> 2 ^ bitSize - 1"
    using n by simp
  ultimately show ?thesis
    by (simp add: ParseUint_def FormatUint_not_Nil ParseUint_loop_FormatUint)
qed

lemma Atoi_Itoa: "inInt i \<Longrightarrow> Atoi (Itoa i) = (i, None)"
proof (cases "i < 0")
  case True
  assume r: "inInt i"
  have u: "nat (- i) \<le> 2 ^ 63"
    using r True by (simp add: inInt_def minInt_def nat_le_iff)
  then have "nat (- i) < 2 ^ 64"
    by simp
  then have p: "ParseUint (FormatUint (nat (- i))) 64 = (nat (- i), None)"
    by (rule ParseUint_FormatUint) simp
  show ?thesis
    using True u p by (simp add: Atoi_def ParseInt_def Itoa_def intSize_def)
next
  case False
  assume r: "inInt i"
  have u: "nat i < 2 ^ 63"
    using r False by (simp add: inInt_def maxInt_def nat_less_iff)
  then have "nat i < 2 ^ 64"
    by simp
  then have p: "ParseUint (FormatUint (nat i)) 64 = (nat i, None)"
    by (rule ParseUint_FormatUint) simp
  obtain c cs where cs: "FormatUint (nat i) = c # cs"
    using FormatUint_not_Nil [of "nat i"] by (cases "FormatUint (nat i)") auto
  have "isDigit c"
    using hd_FormatUint_digit [of "nat i"] cs by simp
  then have ns: "c \<noteq> CHR ''-''" "c \<noteq> CHR ''+''"
    using isDigit_not_sign by auto
  show ?thesis
    using False u p ns cs by (simp add: Atoi_def ParseInt_def Itoa_def intSize_def)
qed

lemma Atoi_inInt: "inInt (fst (Atoi s))"
  by (auto simp: Atoi_def ParseInt_def inInt_def minInt_def maxInt_def intSize_def Let_def
      split: list.splits prod.splits)

lemma wrap_inInt: "inInt (wrap x)"
proof -
  have "0 \<le> (x + 2 ^ 63) mod (2 ^ 64 :: int)" "(x + 2 ^ 63) mod (2 ^ 64 :: int) < 2 ^ 64"
    by simp_all
  then show ?thesis
    by (simp add: inInt_def wrap_def minInt_def maxInt_def)
qed

lemma wrap_id: "inInt x \<Longrightarrow> wrap x = x"
proof -
  assume "inInt x"
  then have "0 \<le> x + 2 ^ 63" "x + 2 ^ 63 < 2 ^ 64"
    by (simp_all add: inInt_def minInt_def maxInt_def)
  then have "(x + 2 ^ 63) mod 2 ^ 64 = x + 2 ^ 63"
    by simp
  then show ?thesis
    by (simp add: wrap_def)
qed

section \<open>Reading stored integers\<close>

lemma stored_inInt: "inInt (stored s k)"
proof (cases "state s k")
  case None
  then show ?thesis
    by (simp add: stored_def inInt_def minInt_def maxInt_def)
next
  case (Some b)
  then show ?thesis
    by (simp add: stored_def Atoi_inInt)
qed

lemma stored_put:
  "inInt v \<Longrightarrow> stored (s\<lparr>state := (state s)(k \<mapsto> Itoa v)\<rparr>) k' = (if k' = k then v else stored s k')"
  by (simp add: stored_def Atoi_Itoa)

lemma stored_event [simp]: "stored (s\<lparr>event := e\<rparr>) k = stored s k"
  by (simp add: stored_def)

lemma stored_Some: "state s k = Some b \<Longrightarrow> fst (Atoi b) = stored s k"
  by (simp add: stored_def)

lemma stored_case: "(case state s k of None \<Rightarrow> 0 | Some b \<Rightarrow> fst (Atoi b)) = stored s k"
  by (simp add: stored_def)

section \<open>What each operation does when nothing fails\<close>

lemma Transfer_run:
  assumes "Atoi amt = (amount, None)"
    and "getStateErr s from = None" and "getStateErr s to = None"
    and "state s from = Some fb" and "amount \<le> stored s from"
    and "putStateErr s from = None" and "putStateErr s to = None"
    and "setEventErr s ''Transfer'' = None"
  shows "Transfer s [from, to, amt] =
           (Success None,
            s\<lparr>state := (state s)(from \<mapsto> Itoa (wrap (stored s from - amount)),
                                 to \<mapsto> Itoa (wrap (stored s to + amount))),
              event := Some (''Transfer'', \<lparr>From = from, To = to, Value = amount\<rparr>)\<rparr>)"
  using assms
  by (simp add: Transfer_def GetState_def PutState_def SetEvent_def stored_def)

lemma stored_reliable:
  "stored (reliable st c) k = (case st k of None \<Rightarrow> 0 | Some b \<Rightarrow> fst (Atoi b))"
  by (simp add: stored_def reliable_def)

lemmas Atoi_eval =
  Atoi_def ParseInt_def ParseUint_def isDigit_def digitVal_def cutoff_def intSize_def

lemmas inInt_eval = inInt_def minInt_def maxInt_def

section \<open>Transfer\<close>

text \<open>
  C1, as stated, fails: the sender holds 5 and sends 5, the recipient holds the largest
  \<^verbatim>\<open>int\<close>. The call succeeds and the recipient's stored balance is negative afterwards,
  not the former balance plus 5.
\<close>

theorem Transfer_overflow_counterexample:
  "stored overflowStub ''a'' = 5 \<and>
   stored overflowStub ''b'' = 9223372036854775807 \<and>
   fst (Transfer overflowStub [''a'', ''b'', ''5'']) = Success None \<and>
   stored (snd (Transfer overflowStub [''a'', ''b'', ''5''])) ''b'' = - 9223372036854775804 \<and>
   stored (snd (Transfer overflowStub [''a'', ''b'', ''5''])) ''b'' \<noteq> stored overflowStub ''b'' + 5"
proof -
  have a: "stored overflowStub ''a'' = 5"
    by (simp add: overflowStub_def stored_reliable Atoi_eval)
  have b: "stored overflowStub ''b'' = 9223372036854775807"
    by (simp add: overflowStub_def stored_reliable Atoi_eval)
  have p: "Atoi ''5'' = (5, None)"
    by (simp add: Atoi_eval)
  have run: "Transfer overflowStub [''a'', ''b'', ''5''] =
      (Success None,
       overflowStub\<lparr>state := (state overflowStub)(''a'' \<mapsto> Itoa (wrap (5 - 5)),
                                  ''b'' \<mapsto> Itoa (wrap (9223372036854775807 + 5))),
         event := Some (''Transfer'', \<lparr>From = ''a'', To = ''b'', Value = 5\<rparr>)\<rparr>)"
    using Transfer_run [of "''5''" 5 overflowStub "''a''" "''b''" "''5''"] a b p
    by (simp add: overflowStub_def reliable_def)
  have w: "wrap 9223372036854775812 = - 9223372036854775804"
    by (simp add: wrap_def)
  have r: "inInt (- 9223372036854775804)"
    by (simp add: inInt_eval)
  have b': "stored (snd (Transfer overflowStub [''a'', ''b'', ''5''])) ''b'' = - 9223372036854775804"
    by (simp add: run w stored_def Atoi_Itoa r)
  show ?thesis
    using a b b' by (simp add: run)
qed

text \<open>
  C1, amended. \<^verbatim>\<open>Transfer(from, to, amount)\<close> on a stored sender balance, with both
  reads answered by the host. If the balance is at least the amount, sender and recipient
  are different keys, neither new balance leaves the range of \<^verbatim>\<open>int\<close> and the host accepts
  the two writes and the event, then the call succeeds, the sender's balance has gone down
  by the amount, the recipient's has gone up by it, and their sum is the same. If the
  balance is less than the amount, the response is the error \<^verbatim>\<open>Insufficient balance\<close> and
  the stub is unchanged.
\<close>

theorem Transfer_moves_amount:
  assumes "Atoi amt = (amount, None)"
    and "getStateErr s from = None" and "getStateErr s to = None"
    and "state s from = Some fb"
  shows "(amount \<le> stored s from \<and> from \<noteq> to \<and>
          inInt (stored s from - amount) \<and> inInt (stored s to + amount) \<and>
          putStateErr s from = None \<and> putStateErr s to = None \<and>
          setEventErr s ''Transfer'' = None \<longrightarrow>
            fst (Transfer s [from, to, amt]) = Success None \<and>
            stored (snd (Transfer s [from, to, amt])) from = stored s from - amount \<and>
            stored (snd (Transfer s [from, to, amt])) to = stored s to + amount \<and>
            stored (snd (Transfer s [from, to, amt])) from + stored (snd (Transfer s [from, to, amt])) to
              = stored s from + stored s to) \<and>
         (stored s from < amount \<longrightarrow>
            Transfer s [from, to, amt] = (Error ''Insufficient balance'', s))"
proof (intro conjI impI)
  assume h: "amount \<le> stored s from \<and> from \<noteq> to \<and>
          inInt (stored s from - amount) \<and> inInt (stored s to + amount) \<and>
          putStateErr s from = None \<and> putStateErr s to = None \<and>
          setEventErr s ''Transfer'' = None"
  let ?s' = "snd (Transfer s [from, to, amt])"
  have run: "Transfer s [from, to, amt] =
      (Success None,
       s\<lparr>state := (state s)(from \<mapsto> Itoa (stored s from - amount),
                            to \<mapsto> Itoa (stored s to + amount)),
         event := Some (''Transfer'', \<lparr>From = from, To = to, Value = amount\<rparr>)\<rparr>)"
    using Transfer_run [OF assms(1) assms(2) assms(3) assms(4)] h
    by (simp add: wrap_id)
  show "fst (Transfer s [from, to, amt]) = Success None"
    by (simp add: run)
  show f: "stored ?s' from = stored s from - amount"
    using h by (simp add: run stored_def Atoi_Itoa)
  show t: "stored ?s' to = stored s to + amount"
    using h by (simp add: run stored_def Atoi_Itoa)
  show "stored ?s' from + stored ?s' to = stored s from + stored s to"
    by (simp add: f t)
next
  assume "stored s from < amount"
  then show "Transfer s [from, to, amt] = (Error ''Insufficient balance'', s)"
    using assms by (simp add: Transfer_def GetState_def stored_def)
qed

theorem Transfer_moves_amount_witness:
  "fst (Transfer transferStub [''a'', ''b'', ''4'']) = Success None \<and>
   stored (snd (Transfer transferStub [''a'', ''b'', ''4''])) ''a'' = 6 \<and>
   stored (snd (Transfer transferStub [''a'', ''b'', ''4''])) ''b'' = 11 \<and>
   Transfer transferStub [''a'', ''b'', ''40''] = (Error ''Insufficient balance'', transferStub)"
proof -
  have a: "stored transferStub ''a'' = 10"
    by (simp add: transferStub_def stored_reliable Atoi_eval)
  have b: "stored transferStub ''b'' = 7"
    by (simp add: transferStub_def stored_reliable Atoi_eval)
  have p4: "Atoi ''4'' = (4, None)"
    by (simp add: Atoi_eval)
  have p40: "Atoi ''40'' = (40, None)"
    by (simp add: Atoi_eval)
  have g: "getStateErr transferStub ''a'' = None" "getStateErr transferStub ''b'' = None"
    "state transferStub ''a'' = Some ''10''"
    by (simp_all add: transferStub_def reliable_def)
  have h: "putStateErr transferStub ''a'' = None" "putStateErr transferStub ''b'' = None"
    "setEventErr transferStub ''Transfer'' = None"
    by (simp_all add: transferStub_def reliable_def)
  show ?thesis
    using Transfer_moves_amount [OF p4 g] Transfer_moves_amount [OF p40 g] a b h
    by (simp add: inInt_eval)
qed

text \<open>
  When sender and recipient are the same key the write of the recipient's balance comes
  last and replaces the sender's: the balance goes up by the amount.
\<close>

lemma Transfer_to_self:
  assumes "Atoi amt = (amount, None)"
    and "getStateErr s from = None" and "state s from = Some fb"
    and "amount \<le> stored s from" and "putStateErr s from = None"
    and "setEventErr s ''Transfer'' = None"
  shows "fst (Transfer s [from, from, amt]) = Success None \<and>
         stored (snd (Transfer s [from, from, amt])) from = wrap (stored s from + amount)"
  using Transfer_run [OF assms(1) assms(2) assms(2) assms(3) assms(4) assms(5) assms(5) assms(6)]
  by (simp add: stored_def Atoi_Itoa wrap_inInt)

lemma Transfer_to_self_example:
  "stored transferStub ''a'' = 10 \<and>
   stored (snd (Transfer transferStub [''a'', ''a'', ''4''])) ''a'' = 14"
proof -
  have a: "stored transferStub ''a'' = 10"
    by (simp add: transferStub_def stored_reliable Atoi_eval)
  have p4: "Atoi ''4'' = (4, None)"
    by (simp add: Atoi_eval)
  have "stored (snd (Transfer transferStub [''a'', ''a'', ''4''])) ''a'' = wrap (10 + 4)"
    using Transfer_to_self [OF p4, of transferStub "''a''" "''10''"] a
    by (simp add: transferStub_def reliable_def)
  then show ?thesis
    using a by (simp add: wrap_def)
qed

section \<open>TransferFrom\<close>

lemma allowanceKey_not_owner: "allowancePrefix @ owner @ spender \<noteq> owner"
proof
  assume "allowancePrefix @ owner @ spender = owner"
  then have "length (allowancePrefix @ owner @ spender) = length owner"
    by simp
  then show False
    by (simp add: allowancePrefix_def)
qed

lemma TransferFrom_run:
  assumes "Atoi amt = (amount, None)"
    and "getStateErr s (allowancePrefix @ owner @ spender) = None"
    and "getStateErr s owner = None" and "getStateErr s to = None"
    and "state s (allowancePrefix @ owner @ spender) = Some ab"
    and "state s owner = Some fb"
    and "amount \<le> stored s (allowancePrefix @ owner @ spender)"
    and "amount \<le> stored s owner"
    and "putStateErr s owner = None" and "putStateErr s to = None"
    and "putStateErr s (allowancePrefix @ owner @ spender) = None"
    and "setEventErr s ''Transfer'' = None"
  shows "TransferFrom s [owner, spender, to, amt] =
           (Success None,
            s\<lparr>state := (state s)
                (owner \<mapsto> Itoa (wrap (stored s owner - amount)),
                 to \<mapsto> Itoa (wrap (stored s to + amount)),
                 allowancePrefix @ owner @ spender \<mapsto>
                   Itoa (wrap (stored s (allowancePrefix @ owner @ spender) - amount))),
              event := Some (''Transfer'', \<lparr>From = owner, To = to, Value = amount\<rparr>)\<rparr>)"
  using assms
  by (simp add: TransferFrom_def GetState_def PutState_def SetEvent_def stored_def)

text \<open>
  C2, as stated, fails: allowance 5, owner balance 5, amount 5, and a recipient holding
  the largest \<^verbatim>\<open>int\<close>. The call succeeds and the recipient's stored balance is negative
  afterwards.
\<close>

theorem TransferFrom_overflow_counterexample:
  "stored overflowFromStub (allowancePrefix @ ''a'' @ ''s'') = 5 \<and>
   stored overflowFromStub ''a'' = 5 \<and>
   stored overflowFromStub ''b'' = 9223372036854775807 \<and>
   fst (TransferFrom overflowFromStub [''a'', ''s'', ''b'', ''5'']) = Success None \<and>
   stored (snd (TransferFrom overflowFromStub [''a'', ''s'', ''b'', ''5''])) ''b''
     = - 9223372036854775804 \<and>
   stored (snd (TransferFrom overflowFromStub [''a'', ''s'', ''b'', ''5''])) ''b''
     \<noteq> stored overflowFromStub ''b'' + 5"
proof -
  note k = allowancePrefix_def
  have al: "stored overflowFromStub ''allowanceas'' = 5"
    by (simp add: overflowFromStub_def stored_reliable Atoi_eval)
  have a: "stored overflowFromStub ''a'' = 5"
    by (simp add: overflowFromStub_def stored_reliable Atoi_eval)
  have b: "stored overflowFromStub ''b'' = 9223372036854775807"
    by (simp add: overflowFromStub_def stored_reliable Atoi_eval)
  have p: "Atoi ''5'' = (5, None)"
    by (simp add: Atoi_eval)
  have run: "TransferFrom overflowFromStub [''a'', ''s'', ''b'', ''5''] =
      (Success None,
       overflowFromStub\<lparr>state := (state overflowFromStub)
           (''a'' \<mapsto> Itoa (wrap 0), ''b'' \<mapsto> Itoa (wrap 9223372036854775812),
            ''allowanceas'' \<mapsto> Itoa (wrap 0)),
         event := Some (''Transfer'', \<lparr>From = ''a'', To = ''b'', Value = 5\<rparr>)\<rparr>)"
    using TransferFrom_run [of "''5''" 5 overflowFromStub "''a''" "''s''" "''b''" "''5''" "''5''"]
      al a b p
    by (simp add: k overflowFromStub_def reliable_def)
  have w: "wrap 9223372036854775812 = - 9223372036854775804"
    by (simp add: wrap_def)
  have r: "inInt (- 9223372036854775804)"
    by (simp add: inInt_eval)
  have b': "stored (snd (TransferFrom overflowFromStub [''a'', ''s'', ''b'', ''5''])) ''b''
      = - 9223372036854775804"
    by (simp add: run w stored_def Atoi_Itoa r)
  show ?thesis
    using al a b b' by (simp add: run k)
qed

text \<open>
  C2, amended. \<^verbatim>\<open>TransferFrom(owner, spender, to, amount)\<close> in token-erc-20\_peer.go, with
  a stored allowance and a stored owner balance and the three reads answered by the host.
  If allowance and balance are both at least the amount, the recipient's key is neither
  the owner's nor the allowance key, none of the three new values leaves the range of
  \<^verbatim>\<open>int\<close> and the host accepts the three writes and the event, then the call succeeds, the
  owner's balance and the allowance have gone down by the amount and the recipient's
  balance has gone up by it. If the allowance is less than the amount the response is
  \<^verbatim>\<open>Allowance exceeded\<close>, if only the balance is, \<^verbatim>\<open>Insufficient balance\<close>; in both cases
  the stub is unchanged.
\<close>

theorem TransferFrom_moves_amount:
  assumes "Atoi amt = (amount, None)"
    and "getStateErr s (allowancePrefix @ owner @ spender) = None"
    and "getStateErr s owner = None" and "getStateErr s to = None"
    and "state s (allowancePrefix @ owner @ spender) = Some ab"
    and "state s owner = Some fb"
  shows "(amount \<le> stored s (allowancePrefix @ owner @ spender) \<and> amount \<le> stored s owner \<and>
          owner \<noteq> to \<and> to \<noteq> allowancePrefix @ owner @ spender \<and>
          inInt (stored s owner - amount) \<and> inInt (stored s to + amount) \<and>
          inInt (stored s (allowancePrefix @ owner @ spender) - amount) \<and>
          putStateErr s owner = None \<and> putStateErr s to = None \<and>
          putStateErr s (allowancePrefix @ owner @ spender) = None \<and>
          setEventErr s ''Transfer'' = None \<longrightarrow>
            fst (TransferFrom s [owner, spender, to, amt]) = Success None \<and>
            stored (snd (TransferFrom s [owner, spender, to, amt])) owner = stored s owner - amount \<and>
            stored (snd (TransferFrom s [owner, spender, to, amt])) to = stored s to + amount \<and>
            stored (snd (TransferFrom s [owner, spender, to, amt])) (allowancePrefix @ owner @ spender)
              = stored s (allowancePrefix @ owner @ spender) - amount) \<and>
         (stored s (allowancePrefix @ owner @ spender) < amount \<longrightarrow>
            TransferFrom s [owner, spender, to, amt] = (Error ''Allowance exceeded'', s)) \<and>
         (amount \<le> stored s (allowancePrefix @ owner @ spender) \<and> stored s owner < amount \<longrightarrow>
            TransferFrom s [owner, spender, to, amt] = (Error ''Insufficient balance'', s))"
proof (intro conjI impI)
  let ?k = "allowancePrefix @ owner @ spender"
  let ?s' = "snd (TransferFrom s [owner, spender, to, amt])"
  assume h: "amount \<le> stored s ?k \<and> amount \<le> stored s owner \<and>
          owner \<noteq> to \<and> to \<noteq> ?k \<and>
          inInt (stored s owner - amount) \<and> inInt (stored s to + amount) \<and>
          inInt (stored s ?k - amount) \<and>
          putStateErr s owner = None \<and> putStateErr s to = None \<and>
          putStateErr s ?k = None \<and> setEventErr s ''Transfer'' = None"
  have run: "TransferFrom s [owner, spender, to, amt] =
      (Success None,
       s\<lparr>state := (state s)
           (owner \<mapsto> Itoa (stored s owner - amount),
            to \<mapsto> Itoa (stored s to + amount),
            ?k \<mapsto> Itoa (stored s ?k - amount)),
         event := Some (''Transfer'', \<lparr>From = owner, To = to, Value = amount\<rparr>)\<rparr>)"
    using TransferFrom_run [OF assms(1) assms(2) assms(3) assms(4) assms(5) assms(6)] h
    by (simp add: wrap_id)
  have ne: "?k \<noteq> owner"
    by (rule allowanceKey_not_owner)
  show "fst (TransferFrom s [owner, spender, to, amt]) = Success None"
    by (simp add: run)
  show "stored ?s' owner = stored s owner - amount"
    using h ne by (simp add: run stored_def Atoi_Itoa)
  show "stored ?s' to = stored s to + amount"
    using h by (simp add: run stored_def Atoi_Itoa)
  show "stored ?s' ?k = stored s ?k - amount"
    using h by (simp add: run stored_def Atoi_Itoa)
next
  assume "stored s (allowancePrefix @ owner @ spender) < amount"
  then show "TransferFrom s [owner, spender, to, amt] = (Error ''Allowance exceeded'', s)"
    using assms by (simp add: TransferFrom_def GetState_def stored_def)
next
  assume "amount \<le> stored s (allowancePrefix @ owner @ spender) \<and> stored s owner < amount"
  then show "TransferFrom s [owner, spender, to, amt] = (Error ''Insufficient balance'', s)"
    using assms by (simp add: TransferFrom_def GetState_def stored_def)
qed

theorem TransferFrom_moves_amount_witness:
  "fst (TransferFrom transferFromStub [''a'', ''s'', ''b'', ''4'']) = Success None \<and>
   stored (snd (TransferFrom transferFromStub [''a'', ''s'', ''b'', ''4''])) ''a'' = 6 \<and>
   stored (snd (TransferFrom transferFromStub [''a'', ''s'', ''b'', ''4''])) ''b'' = 11 \<and>
   stored (snd (TransferFrom transferFromStub [''a'', ''s'', ''b'', ''4''])) ''allowanceas'' = 2 \<and>
   TransferFrom transferFromStub [''a'', ''s'', ''b'', ''8'']
     = (Error ''Allowance exceeded'', transferFromStub) \<and>
   TransferFrom (transferFromStub\<lparr>state := (state transferFromStub)(''a'' \<mapsto> ''3'')\<rparr>)
       [''a'', ''s'', ''b'', ''4'']
     = (Error ''Insufficient balance'',
        transferFromStub\<lparr>state := (state transferFromStub)(''a'' \<mapsto> ''3'')\<rparr>)"
proof -
  let ?t = "transferFromStub\<lparr>state := (state transferFromStub)(''a'' \<mapsto> ''3'')\<rparr>"
  note k = allowancePrefix_def
  have v: "stored transferFromStub ''allowanceas'' = 6" "stored transferFromStub ''a'' = 10"
    "stored transferFromStub ''b'' = 7"
    by (simp_all add: transferFromStub_def stored_reliable Atoi_eval)
  have v': "stored ?t ''allowanceas'' = 6" "stored ?t ''a'' = 3"
    by (simp_all add: transferFromStub_def reliable_def stored_def Atoi_eval)
  have p4: "Atoi ''4'' = (4, None)" and p8: "Atoi ''8'' = (8, None)"
    by (simp_all add: Atoi_eval)
  have g: "getStateErr transferFromStub (allowancePrefix @ ''a'' @ ''s'') = None"
    "getStateErr transferFromStub ''a'' = None" "getStateErr transferFromStub ''b'' = None"
    "state transferFromStub (allowancePrefix @ ''a'' @ ''s'') = Some ''6''"
    "state transferFromStub ''a'' = Some ''10''"
    by (simp_all add: transferFromStub_def reliable_def k)
  have g': "getStateErr ?t (allowancePrefix @ ''a'' @ ''s'') = None"
    "getStateErr ?t ''a'' = None" "getStateErr ?t ''b'' = None"
    "state ?t (allowancePrefix @ ''a'' @ ''s'') = Some ''6''"
    "state ?t ''a'' = Some ''3''"
    by (simp_all add: transferFromStub_def reliable_def k)
  have h: "putStateErr transferFromStub ''a'' = None" "putStateErr transferFromStub ''b'' = None"
    "putStateErr transferFromStub ''allowanceas'' = None"
    "setEventErr transferFromStub ''Transfer'' = None"
    by (simp_all add: transferFromStub_def reliable_def)
  show ?thesis
    using TransferFrom_moves_amount [OF p4 g] TransferFrom_moves_amount [OF p8 g]
      TransferFrom_moves_amount [OF p4 g'] v v' h
    by (simp add: inInt_eval k)
qed

section \<open>Failures of validation leave the stub as it was\<close>

lemmas stub_calls = GetState_def PutState_def SetEvent_def GetCreator_def

lemma Mint_Error_unchanged: "Mint s args = (Error m, s') \<Longrightarrow> s' = s"
  by (auto simp: Mint_def stub_calls Let_def split: if_splits prod.splits sum.splits option.splits)

lemma Burn_Error_unchanged: "Burn s args = (Error m, s') \<Longrightarrow> s' = s"
  by (auto simp: Burn_def stub_calls Let_def split: if_splits prod.splits sum.splits option.splits)

lemma Transfer_Error_unchanged: "Transfer s args = (Error m, s') \<Longrightarrow> s' = s"
  by (auto simp: Transfer_def stub_calls Let_def
      split: if_splits prod.splits sum.splits option.splits)

lemma Approve_Error_unchanged: "Approve s args = (Error m, s') \<Longrightarrow> s' = s"
  by (auto simp: Approve_def stub_calls Let_def
      split: if_splits prod.splits sum.splits option.splits)

lemma BalanceOf_unchanged: "BalanceOf s args = (r, s') \<Longrightarrow> s' = s"
  by (auto simp: BalanceOf_def stub_calls Let_def split: if_splits sum.splits option.splits)

lemma ClientAccountBalance_unchanged: "ClientAccountBalance s args = (r, s') \<Longrightarrow> s' = s"
  by (auto simp: ClientAccountBalance_def GetCreator_def dest: BalanceOf_unchanged
      split: option.splits)

lemma ClientAccountID_unchanged: "ClientAccountID s args = (r, s') \<Longrightarrow> s' = s"
  by (auto simp: ClientAccountID_def GetCreator_def split: option.splits)

lemma TotalSupply_unchanged: "TotalSupply s args = (r, s') \<Longrightarrow> s' = s"
  by (auto simp: TotalSupply_def stub_calls split: sum.splits option.splits)

lemma Allowance_unchanged: "Allowance s args = (r, s') \<Longrightarrow> s' = s"
  by (auto simp: Allowance_def stub_calls Let_def split: if_splits sum.splits option.splits)

lemma Name_unchanged: "Name s args = (r, s') \<Longrightarrow> s' = s"
  by (auto simp: Name_def stub_calls split: sum.splits option.splits)

lemma Symbol_unchanged: "Symbol s args = (r, s') \<Longrightarrow> s' = s"
  by (auto simp: Symbol_def stub_calls split: sum.splits option.splits)

lemma TransferFrom_validation_unchanged:
  "TransferFrom s args = (Error m, s') \<Longrightarrow> m \<noteq> ''Failed to update allowance'' \<Longrightarrow> s' = s"
  by (auto simp: TransferFrom_def stub_calls Let_def
      split: if_splits prod.splits sum.splits option.splits)

lemma Initialize_validation_unchanged:
  "Initialize s args = (Error m, s') \<Longrightarrow>
   m \<noteq> ''Failed to set token symbol'' \<Longrightarrow> m \<noteq> ''Failed to set token decimals'' \<Longrightarrow>
   m \<noteq> ''Failed to set token total supply'' \<Longrightarrow> s' = s"
  by (auto simp: Initialize_def stub_calls Let_def
      split: if_splits prod.splits sum.splits option.splits)

lemma TransferFrom_sc_Error_unchanged: "TransferFrom_sc s args = (Error m, s') \<Longrightarrow> s' = s"
  by (auto simp: TransferFrom_sc_def stub_calls Let_def
      split: if_splits prod.splits sum.splits option.splits)

lemma TokenERC20_Initialize_validation_unchanged:
  "TokenERC20_Initialize t args = (r, t') \<Longrightarrow> validationFailure r \<Longrightarrow> t' = t"
  by (auto simp: TokenERC20_Initialize_def stub_calls Let_def
      split: if_splits prod.splits sum.splits option.splits)

lemma TokenERC20_Mint_validation_unchanged:
  "TokenERC20_Mint t args = (r, t') \<Longrightarrow> validationFailure r \<Longrightarrow> t' = t"
  by (auto simp: TokenERC20_Mint_def stub_calls Let_def
      split: if_splits prod.splits sum.splits option.splits)

lemma TokenERC20_transfer_validation_unchanged:
  "TokenERC20_transfer t args = (r, t') \<Longrightarrow> validationFailure r \<Longrightarrow> t' = t"
  by (auto simp: TokenERC20_transfer_def stub_calls Let_def
      split: if_splits prod.splits sum.splits option.splits)

text \<open>
  C3. Whatever the function name, the arguments, the stub and the host's answers: when
  \<^verbatim>\<open>Invoke\<close> of token-erc-20\_peer.go responds with one of the validation messages, the
  stub it leaves is the one it was given, so no write and no event has been issued. The
  same holds for \<^verbatim>\<open>TransferFrom\<close> of token-erc-20-sc.go, and for \<^verbatim>\<open>Initialize\<close>,
  \<^verbatim>\<open>Mint\<close> and \<^verbatim>\<open>transfer\<close> of go/token\_erc\_20.go when the response is a failure the
  contract detects itself.
\<close>

theorem validation_failure_writes_nothing:
  "(Invoke s function args = (Error m, s') \<and> m \<in> set validationMessages \<longrightarrow> s' = s) \<and>
   (TransferFrom_sc s args = (Error m, s') \<and> m \<in> set validationMessages \<longrightarrow> s' = s) \<and>
   (validationFailure r \<and>
    (TokenERC20_Initialize t args = (r, t') \<or> TokenERC20_Mint t args = (r, t') \<or>
     TokenERC20_transfer t args = (r, t')) \<longrightarrow> t' = t)"
proof (intro conjI impI)
  assume h: "Invoke s function args = (Error m, s') \<and> m \<in> set validationMessages"
  then have m: "m \<noteq> ''Failed to update allowance''" "m \<noteq> ''Failed to set token symbol''"
    "m \<noteq> ''Failed to set token decimals''" "m \<noteq> ''Failed to set token total supply''"
    by (auto simp: validationMessages_def)
  show "s' = s"
    using h m
    by (auto simp: Invoke_def split: if_splits
        dest: Mint_Error_unchanged Burn_Error_unchanged Transfer_Error_unchanged
          Approve_Error_unchanged BalanceOf_unchanged ClientAccountBalance_unchanged
          ClientAccountID_unchanged TotalSupply_unchanged Allowance_unchanged Name_unchanged
          Symbol_unchanged TransferFrom_validation_unchanged Initialize_validation_unchanged)
next
  assume "TransferFrom_sc s args = (Error m, s') \<and> m \<in> set validationMessages"
  then show "s' = s"
    by (auto dest: TransferFrom_sc_Error_unchanged)
next
  assume "validationFailure r \<and>
    (TokenERC20_Initialize t args = (r, t') \<or> TokenERC20_Mint t args = (r, t') \<or>
     TokenERC20_transfer t args = (r, t'))"
  then show "t' = t"
    by (auto dest: TokenERC20_Initialize_validation_unchanged
        TokenERC20_Mint_validation_unchanged TokenERC20_transfer_validation_unchanged)
qed

theorem validation_failure_writes_nothing_witness:
  "fst (Invoke transferFromStub ''TransferFrom'' [''a'', ''s'', ''b'', ''8''])
     = Error ''Allowance exceeded'' \<and>
   snd (Invoke transferFromStub ''TransferFrom'' [''a'', ''s'', ''b'', ''8'']) = transferFromStub \<and>
   fst (TransferFrom_sc transferFromStub [''a'', ''b'', ''8'', ''s''])
     = Error ''Allowance not found'' \<and>
   snd (TransferFrom_sc transferFromStub [''a'', ''b'', ''8'', ''s'']) = transferFromStub \<and>
   fst (TokenERC20_Mint goldStub [''x''])
     = Errorf ''Invalid amount: %s'' (NumError ''ParseUint'' ''x'' ErrSyntax) \<and>
   snd (TokenERC20_Mint goldStub [''x'']) = goldStub"
proof -
  let ?peer = "Invoke transferFromStub ''TransferFrom'' [''a'', ''s'', ''b'', ''8'']"
  let ?sc = "TransferFrom_sc transferFromStub [''a'', ''b'', ''8'', ''s'']"
  let ?map = "TokenERC20_Mint goldStub [''x'']"
  note th = validation_failure_writes_nothing
  have p8: "Atoi ''8'' = (8, None)"
    by (simp add: Atoi_eval)
  have v: "stored transferFromStub ''allowanceas'' = 6"
    by (simp add: transferFromStub_def stored_reliable Atoi_eval)
  have peer: "fst ?peer = Error ''Allowance exceeded''"
    using v
    by (simp add: Invoke_def TransferFrom_def p8 allowancePrefix_def GetState_def stored_def
        transferFromStub_def reliable_def)
  have sc: "fst ?sc = Error ''Allowance not found''"
    by (simp add: TransferFrom_sc_def p8 allowancePrefix_def GetState_def
        transferFromStub_def reliable_def)
  have px: "ParseUint ''x'' 64 = (0, Some ErrSyntax)"
    by (simp add: Atoi_eval)
  have map: "fst ?map = Errorf ''Invalid amount: %s'' (NumError ''ParseUint'' ''x'' ErrSyntax)"
    by (simp add: TokenERC20_Mint_def px)
  have mem: "''Allowance exceeded'' \<in> set validationMessages"
    "''Allowance not found'' \<in> set validationMessages"
    by (simp_all add: validationMessages_def)
  have "?peer = (Error ''Allowance exceeded'', snd ?peer)"
    using peer by (simp add: prod_eq_iff)
  then have 1: "snd ?peer = transferFromStub"
    using th [THEN conjunct1] mem by blast
  have "?sc = (Error ''Allowance not found'', snd ?sc)"
    using sc by (simp add: prod_eq_iff)
  then have 2: "snd ?sc = transferFromStub"
    using th [THEN conjunct2, THEN conjunct1] mem by blast
  have "?map = (Errorf ''Invalid amount: %s'' (NumError ''ParseUint'' ''x'' ErrSyntax), snd ?map)"
    using map by (simp add: prod_eq_iff)
  moreover have "validationFailure (Errorf ''Invalid amount: %s'' (NumError ''ParseUint'' ''x'' ErrSyntax))"
    by simp
  ultimately have 3: "snd ?map = goldStub"
    using th [THEN conjunct2, THEN conjunct2] by blast
  show ?thesis
    using peer sc map 1 2 3 by simp
qed

section \<open>Mint and Burn\<close>

lemma Mint_run:
  assumes "Atoi amt = (amount, None)"
    and "getStateErr s minter = None" and "putStateErr s minter = None"
    and "setEventErr s ''Transfer'' = None"
  shows "Mint s [minter, amt] =
           (Success None,
            s\<lparr>state := (state s)(minter \<mapsto> Itoa (wrap (stored s minter + amount))),
              event := Some (''Transfer'', \<lparr>From = [], To = minter, Value = amount\<rparr>)\<rparr>)"
  using assms
  by (simp add: Mint_def GetState_def PutState_def SetEvent_def stored_def)

lemma Burn_run:
  assumes "Atoi amt = (amount, None)"
    and "getStateErr s minter = None" and "state s minter = Some b"
    and "amount \<le> stored s minter" and "putStateErr s minter = None"
    and "setEventErr s ''Transfer'' = None"
  shows "Burn s [minter, amt] =
           (Success None,
            s\<lparr>state := (state s)(minter \<mapsto> Itoa (wrap (stored s minter - amount))),
              event := Some (''Transfer'', \<lparr>From = minter, To = [], Value = amount\<rparr>)\<rparr>)"
  using assms
  by (simp add: Burn_def GetState_def PutState_def SetEvent_def stored_def)

lemma TokenERC20_Mint_run:
  assumes "ParseUint a 64 = (amount, None)"
    and "getStateErr s ''token'' = None" and "state s ''token'' = Some token"
    and "getCreatorErr s = None" and "putStateErr s ''token'' = None"
    and "setEventErr s ''Transfer'' = None"
  shows "TokenERC20_Mint s [a] =
           (Success None,
            s\<lparr>state := (state s)(''token'' \<mapsto>
                token\<lparr>Token_Total := Token_Total token + of_nat amount,
                      Token_Balance := (Token_Balance token)
                        (EncodeToString (txCreator s) \<mapsto>
                           mapIndex (Token_Balance token) (EncodeToString (txCreator s))
                             + of_nat amount)\<rparr>),
              event := Some (''Transfer'',
                ''Minted '' @ FormatUint amount @ '' tokens to '' @ EncodeToString (txCreator s))\<rparr>)"
  using assms
  by (simp add: TokenERC20_Mint_def GetState_def PutState_def SetEvent_def GetCreator_def Let_def)

text \<open>
  C4, as stated, fails on token-erc-20\_peer.go: with a stored total supply of 1000, minting
  5 to an account holding 10 succeeds and brings the balance to 15, and the stored total
  supply is still 1000.
\<close>

theorem Mint_totalSupply_counterexample:
  "stored supplyStub totalSupplyKey = 1000 \<and>
   stored supplyStub ''alice'' = 10 \<and>
   fst (Mint supplyStub [''alice'', ''5'']) = Success None \<and>
   stored (snd (Mint supplyStub [''alice'', ''5''])) ''alice'' = 15 \<and>
   stored (snd (Mint supplyStub [''alice'', ''5''])) totalSupplyKey = 1000 \<and>
   fst (TotalSupply (snd (Mint supplyStub [''alice'', ''5''])) []) = Success (Some ''1000'')"
proof -
  have v: "stored supplyStub ''totalSupply'' = 1000" "stored supplyStub ''alice'' = 10"
    by (simp_all add: supplyStub_def stored_reliable Atoi_eval)
  have p: "Atoi ''5'' = (5, None)"
    by (simp add: Atoi_eval)
  have run: "Mint supplyStub [''alice'', ''5''] =
      (Success None,
       supplyStub\<lparr>state := (state supplyStub)(''alice'' \<mapsto> Itoa (wrap 15)),
         event := Some (''Transfer'', \<lparr>From = [], To = ''alice'', Value = 5\<rparr>)\<rparr>)"
    using Mint_run [of "''5''" 5 supplyStub "''alice''"] v p
    by (simp add: supplyStub_def reliable_def)
  have w: "wrap 15 = 15" "inInt 15"
    by (simp_all add: wrap_def inInt_eval)
  have t: "state supplyStub ''totalSupply'' = Some ''1000''"
    "getStateErr supplyStub ''totalSupply'' = None"
    by (simp_all add: supplyStub_def reliable_def)
  show ?thesis
    using v t
    by (simp add: run w totalSupplyKey_def stored_def Atoi_Itoa TotalSupply_def GetState_def)
qed

text \<open>
  C4, amended. In token-erc-20\_peer.go a \<^verbatim>\<open>Mint(minter, amount)\<close> whose amount parses, whose
  calls the host accepts and whose sum stays in the range of \<^verbatim>\<open>int\<close> succeeds, raises the
  stored balance of \<^verbatim>\<open>minter\<close> (an argument, not the caller's identity) by the amount,
  attaches the event \<^verbatim>\<open>Transfer\<close> with from empty, to the minter and value the amount, and
  writes no key but the minter's. So the value stored under \<^verbatim>\<open>totalSupply\<close> is as it was
  whenever the minter is another key; when the minter argument is the string
  \<^verbatim>\<open>totalSupply\<close> itself, that value is the balance that goes up. In go/token\_erc\_20.go a
  \<^verbatim>\<open>Mint(amount)\<close> on a stored token whose sums stay below \<open>2 ^ 64\<close> succeeds and raises
  the total and the balance of the hex-encoded caller by the amount; the payload of its
  \<^verbatim>\<open>Transfer\<close> event is the text \<^verbatim>\<open>Minted <amount> tokens to <caller>\<close>.
\<close>

theorem Mint_effects:
  "(Atoi amt = (amount, None) \<and> getStateErr s minter = None \<and> putStateErr s minter = None \<and>
    setEventErr s ''Transfer'' = None \<and> inInt (stored s minter + amount) \<longrightarrow>
      fst (Mint s [minter, amt]) = Success None \<and>
      stored (snd (Mint s [minter, amt])) minter = stored s minter + amount \<and>
      (\<forall>k. k \<noteq> minter \<longrightarrow> state (snd (Mint s [minter, amt])) k = state s k) \<and>
      event (snd (Mint s [minter, amt]))
        = Some (''Transfer'', \<lparr>From = [], To = minter, Value = amount\<rparr>)) \<and>
   (ParseUint a 64 = (n, None) \<and> getStateErr t ''token'' = None \<and>
    state t ''token'' = Some token \<and> getCreatorErr t = None \<and>
    putStateErr t ''token'' = None \<and> setEventErr t ''Transfer'' = None \<and>
    unat (Token_Total token) + n < 2 ^ 64 \<and>
    unat (mapIndex (Token_Balance token) (EncodeToString (txCreator t))) + n < 2 ^ 64 \<longrightarrow>
      fst (TokenERC20_Mint t [a]) = Success None \<and>
      (\<exists>token'. state (snd (TokenERC20_Mint t [a])) ''token'' = Some token' \<and>
         unat (Token_Total token') = unat (Token_Total token) + n \<and>
         unat (mapIndex (Token_Balance token') (EncodeToString (txCreator t)))
           = unat (mapIndex (Token_Balance token) (EncodeToString (txCreator t))) + n) \<and>
      event (snd (TokenERC20_Mint t [a]))
        = Some (''Transfer'',
            ''Minted '' @ FormatUint n @ '' tokens to '' @ EncodeToString (txCreator t)))"
proof (intro conjI impI allI)
  assume h: "Atoi amt = (amount, None) \<and> getStateErr s minter = None \<and>
    putStateErr s minter = None \<and> setEventErr s ''Transfer'' = None \<and>
    inInt (stored s minter + amount)"
  then have run: "Mint s [minter, amt] =
      (Success None,
       s\<lparr>state := (state s)(minter \<mapsto> Itoa (stored s minter + amount)),
         event := Some (''Transfer'', \<lparr>From = [], To = minter, Value = amount\<rparr>)\<rparr>)"
    using Mint_run [of amt amount s minter] by (simp add: wrap_id)
  show "fst (Mint s [minter, amt]) = Success None"
    by (simp add: run)
  show "stored (snd (Mint s [minter, amt])) minter = stored s minter + amount"
    using h by (simp add: run stored_def Atoi_Itoa)
  show "state (snd (Mint s [minter, amt])) k = state s k" if "k \<noteq> minter" for k
    using that by (simp add: run)
  show "event (snd (Mint s [minter, amt]))
      = Some (''Transfer'', \<lparr>From = [], To = minter, Value = amount\<rparr>)"
    by (simp add: run)
next
  let ?c = "EncodeToString (txCreator t)"
  assume h: "ParseUint a 64 = (n, None) \<and> getStateErr t ''token'' = None \<and>
    state t ''token'' = Some token \<and> getCreatorErr t = None \<and>
    putStateErr t ''token'' = None \<and> setEventErr t ''Transfer'' = None \<and>
    unat (Token_Total token) + n < 2 ^ 64 \<and>
    unat (mapIndex (Token_Balance token) ?c) + n < 2 ^ 64"
  then have run: "TokenERC20_Mint t [a] =
      (Success None,
       t\<lparr>state := (state t)(''token'' \<mapsto>
           token\<lparr>Token_Total := Token_Total token + of_nat n,
                 Token_Balance := (Token_Balance token)
                   (?c \<mapsto> mapIndex (Token_Balance token) ?c + of_nat n)\<rparr>),
         event := Some (''Transfer'', ''Minted '' @ FormatUint n @ '' tokens to '' @ ?c)\<rparr>)"
    using TokenERC20_Mint_run [of a n t token] by simp
  have n: "n < 2 ^ 64"
    using h by simp
  have total: "unat (Token_Total token + of_nat n) = unat (Token_Total token) + n"
    using h n by (simp add: unat_word_ariths unat_of_nat)
  have bal: "unat (mapIndex (Token_Balance token) ?c + of_nat n)
      = unat (mapIndex (Token_Balance token) ?c) + n"
    using h n by (simp add: unat_word_ariths unat_of_nat)
  show "fst (TokenERC20_Mint t [a]) = Success None"
    by (simp add: run)
  show "\<exists>token'. state (snd (TokenERC20_Mint t [a])) ''token'' = Some token' \<and>
         unat (Token_Total token') = unat (Token_Total token) + n \<and>
         unat (mapIndex (Token_Balance token') ?c)
           = unat (mapIndex (Token_Balance token) ?c) + n"
    using total bal by (simp add: run mapIndex_def)
  show "event (snd (TokenERC20_Mint t [a]))
      = Some (''Transfer'', ''Minted '' @ FormatUint n @ '' tokens to '' @ ?c)"
    by (simp add: run)
qed

lemma EncodeToString_ab: "EncodeToString ''ab'' = ''6162''"
  by (simp add: EncodeToString_def hextable_def)

lemma ParseUint_5: "ParseUint ''5'' 64 = (5, None)"
  by (simp add: Atoi_eval)

theorem Mint_effects_witness:
  "fst (Mint supplyStub [''alice'', ''5'']) = Success None \<and>
   stored (snd (Mint supplyStub [''alice'', ''5''])) ''alice'' = 15 \<and>
   state (snd (Mint supplyStub [''alice'', ''5''])) totalSupplyKey = Some ''1000'' \<and>
   event (snd (Mint supplyStub [''alice'', ''5'']))
     = Some (''Transfer'', \<lparr>From = [], To = ''alice'', Value = 5\<rparr>) \<and>
   fst (Mint supplyStub [totalSupplyKey, ''5'']) = Success None \<and>
   stored (snd (Mint supplyStub [totalSupplyKey, ''5''])) totalSupplyKey = 1005 \<and>
   state (snd (Mint supplyStub [totalSupplyKey, ''5''])) ''alice'' = Some ''10'' \<and>
   fst (TokenERC20_Mint goldStub [''5'']) = Success None \<and>
   (\<exists>token'. state (snd (TokenERC20_Mint goldStub [''5''])) ''token'' = Some token' \<and>
      unat (Token_Total token') = 1005 \<and>
      unat (mapIndex (Token_Balance token') ''6162'') = 1005) \<and>
   event (snd (TokenERC20_Mint goldStub [''5'']))
     = Some (''Transfer'', ''Minted 5 tokens to 6162'')"
proof -
  have v: "stored supplyStub ''alice'' = 10" "stored supplyStub totalSupplyKey = 1000"
    by (simp_all add: supplyStub_def stored_reliable Atoi_eval totalSupplyKey_def)
  have p: "Atoi ''5'' = (5, None)"
    by (simp add: Atoi_eval)
  have host: "getStateErr supplyStub k = None" "putStateErr supplyStub k = None"
    "setEventErr supplyStub ''Transfer'' = None" for k
    by (simp_all add: supplyStub_def reliable_def)
  have st: "state supplyStub totalSupplyKey = Some ''1000''" "state supplyStub ''alice'' = Some ''10''"
    "totalSupplyKey \<noteq> ''alice''" "''alice'' \<noteq> totalSupplyKey"
    by (simp_all add: supplyStub_def reliable_def totalSupplyKey_def)
  have gold: "getStateErr goldStub ''token'' = None" "state goldStub ''token'' = Some goldToken"
    "getCreatorErr goldStub = None" "putStateErr goldStub ''token'' = None"
    "setEventErr goldStub ''Transfer'' = None" "txCreator goldStub = ''ab''"
    by (simp_all add: goldStub_def reliable_def)
  have tok: "unat (Token_Total goldToken) = 1000"
    "unat (mapIndex (Token_Balance goldToken) ''6162'') = 1000"
    by (simp_all add: goldToken_def mapIndex_def)
  have f: "FormatUint 5 = ''5''"
    by (simp add: FormatUint.simps digitChar_def digits_def)
  note atAlice = Mint_effects [of "''5''" 5 supplyStub "''alice''" "''5''" 5 goldStub goldToken]
  note atSupply = Mint_effects [of "''5''" 5 supplyStub totalSupplyKey "''5''" 5 goldStub goldToken]
  have 1: "fst (Mint supplyStub [''alice'', ''5'']) = Success None \<and>
      stored (snd (Mint supplyStub [''alice'', ''5''])) ''alice'' = 15 \<and>
      (\<forall>k. k \<noteq> ''alice'' \<longrightarrow> state (snd (Mint supplyStub [''alice'', ''5''])) k = state supplyStub k) \<and>
      event (snd (Mint supplyStub [''alice'', ''5'']))
        = Some (''Transfer'', \<lparr>From = [], To = ''alice'', Value = 5\<rparr>)"
    using atAlice [THEN conjunct1] v p host by (simp add: inInt_eval)
  have 2: "fst (Mint supplyStub [totalSupplyKey, ''5'']) = Success None \<and>
      stored (snd (Mint supplyStub [totalSupplyKey, ''5''])) totalSupplyKey = 1005 \<and>
      (\<forall>k. k \<noteq> totalSupplyKey \<longrightarrow>
         state (snd (Mint supplyStub [totalSupplyKey, ''5''])) k = state supplyStub k)"
    using atSupply [THEN conjunct1] v p host by (simp add: inInt_eval)
  have 3: "fst (TokenERC20_Mint goldStub [''5'']) = Success None \<and>
      (\<exists>token'. state (snd (TokenERC20_Mint goldStub [''5''])) ''token'' = Some token' \<and>
         unat (Token_Total token') = 1005 \<and>
         unat (mapIndex (Token_Balance token') ''6162'') = 1005) \<and>
      event (snd (TokenERC20_Mint goldStub [''5'']))
        = Some (''Transfer'', ''Minted 5 tokens to 6162'')"
    using atAlice [THEN conjunct2] gold tok ParseUint_5 by (simp add: EncodeToString_ab f)
  show ?thesis
    using 1 2 3 st by simp
qed

section \<open>Burn\<close>

text \<open>
  C5, as stated, fails: with a stored total supply of 1000, burning 4 from an account
  holding 10 succeeds and brings the balance to 6, and the stored total supply is still
  1000.
\<close>

theorem Burn_totalSupply_counterexample:
  "stored supplyStub totalSupplyKey = 1000 \<and>
   stored supplyStub ''alice'' = 10 \<and>
   fst (Burn supplyStub [''alice'', ''4'']) = Success None \<and>
   stored (snd (Burn supplyStub [''alice'', ''4''])) ''alice'' = 6 \<and>
   stored (snd (Burn supplyStub [''alice'', ''4''])) totalSupplyKey = 1000"
proof -
  have v: "stored supplyStub ''totalSupply'' = 1000" "stored supplyStub ''alice'' = 10"
    by (simp_all add: supplyStub_def stored_reliable Atoi_eval)
  have p: "Atoi ''4'' = (4, None)"
    by (simp add: Atoi_eval)
  have run: "Burn supplyStub [''alice'', ''4''] =
      (Success None,
       supplyStub\<lparr>state := (state supplyStub)(''alice'' \<mapsto> Itoa (wrap 6)),
         event := Some (''Transfer'', \<lparr>From = ''alice'', To = [], Value = 4\<rparr>)\<rparr>)"
    using Burn_run [of "''4''" 4 supplyStub "''alice''" "''10''"] v p
    by (simp add: supplyStub_def reliable_def)
  have w: "wrap 6 = 6" "inInt 6"
    by (simp_all add: wrap_def inInt_eval)
  have t: "state supplyStub ''totalSupply'' = Some ''1000''"
    by (simp add: supplyStub_def reliable_def)
  show ?thesis
    using v t by (simp add: run w totalSupplyKey_def stored_def Atoi_Itoa)
qed

text \<open>
  C5, amended. \<^verbatim>\<open>Burn(minter, amount)\<close> with an amount that parses and a read the host
  answers. If the account is stored with a balance of at least the amount, the new balance
  stays in the range of \<^verbatim>\<open>int\<close> and the host accepts the write and the event, the call
  succeeds, the balance has gone down by the amount and no key but the account's has been
  written. So the value stored under \<^verbatim>\<open>totalSupply\<close> is as before whenever the account
  is another key; when the account argument is the string \<^verbatim>\<open>totalSupply\<close> itself, that
  value is the balance that goes down. If the balance is less than the amount the
  response is \<^verbatim>\<open>Insufficient balance\<close>, if the account is not stored,
  \<^verbatim>\<open>Account not found\<close>; in both cases the stub is unchanged.
\<close>

theorem Burn_effects:
  assumes "Atoi amt = (amount, None)" and "getStateErr s minter = None"
  shows "(state s minter \<noteq> None \<and> amount \<le> stored s minter \<and>
          inInt (stored s minter - amount) \<and>
          putStateErr s minter = None \<and> setEventErr s ''Transfer'' = None \<longrightarrow>
            fst (Burn s [minter, amt]) = Success None \<and>
            stored (snd (Burn s [minter, amt])) minter = stored s minter - amount \<and>
            (\<forall>k. k \<noteq> minter \<longrightarrow> state (snd (Burn s [minter, amt])) k = state s k)) \<and>
         (state s minter \<noteq> None \<and> stored s minter < amount \<longrightarrow>
            Burn s [minter, amt] = (Error ''Insufficient balance'', s)) \<and>
         (state s minter = None \<longrightarrow>
            Burn s [minter, amt] = (Error ''Account not found'', s))"
proof (intro conjI impI allI)
  assume h: "state s minter \<noteq> None \<and> amount \<le> stored s minter \<and>
          inInt (stored s minter - amount) \<and>
          putStateErr s minter = None \<and> setEventErr s ''Transfer'' = None"
  then obtain b where b: "state s minter = Some b"
    by auto
  have run: "Burn s [minter, amt] =
      (Success None,
       s\<lparr>state := (state s)(minter \<mapsto> Itoa (stored s minter - amount)),
         event := Some (''Transfer'', \<lparr>From = minter, To = [], Value = amount\<rparr>)\<rparr>)"
    using Burn_run [OF assms b] h by (simp add: wrap_id)
  show "fst (Burn s [minter, amt]) = Success None"
    by (simp add: run)
  show "stored (snd (Burn s [minter, amt])) minter = stored s minter - amount"
    using h by (simp add: run stored_def Atoi_Itoa)
  show "state (snd (Burn s [minter, amt])) k = state s k" if "k \<noteq> minter" for k
    using that by (simp add: run)
next
  assume "state s minter \<noteq> None \<and> stored s minter < amount"
  then show "Burn s [minter, amt] = (Error ''Insufficient balance'', s)"
    using assms by (auto simp: Burn_def GetState_def stored_def)
next
  assume "state s minter = None"
  then show "Burn s [minter, amt] = (Error ''Account not found'', s)"
    using assms by (simp add: Burn_def GetState_def)
qed

theorem Burn_effects_witness:
  "fst (Burn supplyStub [''alice'', ''4'']) = Success None \<and>
   stored (snd (Burn supplyStub [''alice'', ''4''])) ''alice'' = 6 \<and>
   state (snd (Burn supplyStub [''alice'', ''4''])) totalSupplyKey = Some ''1000'' \<and>
   fst (Burn supplyStub [totalSupplyKey, ''4'']) = Success None \<and>
   stored (snd (Burn supplyStub [totalSupplyKey, ''4''])) totalSupplyKey = 996 \<and>
   state (snd (Burn supplyStub [totalSupplyKey, ''4''])) ''alice'' = Some ''10'' \<and>
   Burn supplyStub [''alice'', ''40''] = (Error ''Insufficient balance'', supplyStub) \<and>
   Burn supplyStub [''bob'', ''4''] = (Error ''Account not found'', supplyStub)"
proof -
  have v: "stored supplyStub ''alice'' = 10" "stored supplyStub totalSupplyKey = 1000"
    by (simp_all add: supplyStub_def stored_reliable Atoi_eval totalSupplyKey_def)
  have p4: "Atoi ''4'' = (4, None)" and p40: "Atoi ''40'' = (40, None)"
    by (simp_all add: Atoi_eval)
  have g: "getStateErr supplyStub k = None" for k
    by (simp add: supplyStub_def reliable_def)
  have h: "state supplyStub ''alice'' = Some ''10''" "state supplyStub ''bob'' = None"
    "state supplyStub totalSupplyKey = Some ''1000''"
    "putStateErr supplyStub k = None" "setEventErr supplyStub ''Transfer'' = None"
    "''alice'' \<noteq> totalSupplyKey" "totalSupplyKey \<noteq> ''alice''" for k
    by (simp_all add: supplyStub_def reliable_def totalSupplyKey_def)
  have 1: "fst (Burn supplyStub [''alice'', ''4'']) = Success None \<and>
      stored (snd (Burn supplyStub [''alice'', ''4''])) ''alice'' = 6 \<and>
      (\<forall>k. k \<noteq> ''alice'' \<longrightarrow> state (snd (Burn supplyStub [''alice'', ''4''])) k = state supplyStub k)"
    using Burn_effects [OF p4 g, of "''alice''", THEN conjunct1] v h by (simp add: inInt_eval)
  have 2: "fst (Burn supplyStub [totalSupplyKey, ''4'']) = Success None \<and>
      stored (snd (Burn supplyStub [totalSupplyKey, ''4''])) totalSupplyKey = 996 \<and>
      (\<forall>k. k \<noteq> totalSupplyKey \<longrightarrow>
         state (snd (Burn supplyStub [totalSupplyKey, ''4''])) k = state supplyStub k)"
    using Burn_effects [OF p4 g, of totalSupplyKey, THEN conjunct1] v h by (simp add: inInt_eval)
  have 3: "Burn supplyStub [''alice'', ''40''] = (Error ''Insufficient balance'', supplyStub)"
    using Burn_effects [OF p40 g, of "''alice''"] v h by simp
  have 4: "Burn supplyStub [''bob'', ''4''] = (Error ''Account not found'', supplyStub)"
    using Burn_effects [OF p4 g, of "''bob''"] h by simp
  show ?thesis
    using 1 2 3 4 h by simp
qed

section \<open>Signs of the stored values\<close>

lemma nonneg_iff: "nonneg s = nonnegMap (state s)"
  by (simp add: nonneg_def nonnegMap_def stored_def)

lemma nonnegMap_upd:
  "nonnegMap m \<Longrightarrow> 0 \<le> v \<Longrightarrow> v \<le> maxInt \<Longrightarrow> nonnegMap (m(k \<mapsto> Itoa (wrap v)))"
proof -
  assume m: "nonnegMap m" and v: "0 \<le> v" "v \<le> maxInt"
  have r: "inInt v"
    using v by (simp add: inInt_def minInt_def)
  show ?thesis
    using m v by (simp add: nonnegMap_def wrap_id [OF r] Atoi_Itoa [OF r])
qed

lemma nonnegMap_stored: "nonnegMap (state s) \<Longrightarrow> 0 \<le> stored s k"
  by (simp add: nonneg_iff [symmetric] nonneg_def)

lemma Atoi_le_maxInt: "fst (Atoi b) \<le> maxInt"
  using Atoi_inInt [of b] by (simp add: inInt_def)

lemma Mint_nonneg:
  assumes "nonneg s" and "0 \<le> amountArg args"
    and "length args = 2 \<longrightarrow> stored s (args ! 0) + amountArg args \<le> maxInt"
  shows "nonneg (snd (Mint s args))"
proof (cases "length args = 2")
  case False
  then show ?thesis
    using assms(1) by (simp add: Mint_def)
next
  case True
  then have am: "amountArg args = fst (Atoi (args ! 1))"
    by (auto simp: amountArg_def last_conv_nth)
  have b: "0 \<le> stored s (args ! 0)" "stored s (args ! 0) + fst (Atoi (args ! 1)) \<le> maxInt"
    using assms am True by (auto simp: nonneg_def)
  have a: "0 \<le> fst (Atoi (args ! 1))"
    using assms(2) am by simp
  have m: "nonnegMap (state s)"
    using assms(1) by (simp add: nonneg_iff)
  show ?thesis
    using True a b m
    by (auto simp: Mint_def stub_calls Let_def nonneg_iff stored_def intro!: nonnegMap_upd
        split: prod.splits sum.splits option.splits if_splits)
qed

lemma Burn_nonneg:
  assumes "nonneg s" and "0 \<le> amountArg args"
  shows "nonneg (snd (Burn s args))"
proof (cases "length args = 2")
  case False
  then show ?thesis
    using assms(1) by (simp add: Burn_def)
next
  case True
  then have am: "amountArg args = fst (Atoi (args ! 1))"
    by (auto simp: amountArg_def last_conv_nth)
  have a: "0 \<le> fst (Atoi (args ! 1))"
    using assms(2) am by simp
  have m: "nonnegMap (state s)"
    using assms(1) by (simp add: nonneg_iff)
  have le: "fst (Atoi b) - fst (Atoi (args ! 1)) \<le> maxInt" for b
    using a Atoi_le_maxInt [of b] by linarith
  show ?thesis
    using True a m le
    by (auto simp: Burn_def stub_calls Let_def nonneg_iff intro!: nonnegMap_upd
        split: prod.splits sum.splits option.splits if_splits)
qed

lemma Approve_nonneg:
  assumes "nonneg s" and "0 \<le> amountArg args"
  shows "nonneg (snd (Approve s args))"
proof (cases "length args = 3")
  case False
  then show ?thesis
    using assms(1) by (simp add: Approve_def)
next
  case True
  then have am: "amountArg args = fst (Atoi (args ! 2))"
    by (auto simp: amountArg_def last_conv_nth)
  have a: "0 \<le> fst (Atoi (args ! 2))"
    using assms(2) am by simp
  have m: "nonnegMap (state s)"
    using assms(1) by (simp add: nonneg_iff)
  have r: "inInt (fst (Atoi (args ! 2)))"
    by (rule Atoi_inInt)
  have "nonnegMap ((state s)(k \<mapsto> Itoa (fst (Atoi (args ! 2)))))" for k
    using nonnegMap_upd [OF m a Atoi_le_maxInt, of k] by (simp add: wrap_id [OF r])
  then show ?thesis
    using True m
    by (auto simp: Approve_def stub_calls Let_def nonneg_iff
        split: prod.splits sum.splits option.splits if_splits)
qed

lemma Transfer_nonneg:
  assumes "nonneg s" and "0 \<le> amountArg args"
    and "length args = 3 \<longrightarrow> stored s (args ! 1) + amountArg args \<le> maxInt"
  shows "nonneg (snd (Transfer s args))"
proof (cases "length args = 3")
  case False
  then show ?thesis
    using assms(1) by (simp add: Transfer_def)
next
  case True
  then have am: "amountArg args = fst (Atoi (args ! 2))"
    by (auto simp: amountArg_def last_conv_nth)
  have a: "0 \<le> fst (Atoi (args ! 2))"
    using assms(2) am by simp
  have b: "0 \<le> stored s (args ! 1)" "stored s (args ! 1) + fst (Atoi (args ! 2)) \<le> maxInt"
    using assms am True by (auto simp: nonneg_def)
  have m: "nonnegMap (state s)"
    using assms(1) by (simp add: nonneg_iff)
  have le: "fst (Atoi b) - fst (Atoi (args ! 2)) \<le> maxInt" for b
    using a Atoi_le_maxInt [of b] by linarith
  show ?thesis
    using True a b m le
    by (auto simp: Transfer_def stub_calls Let_def nonneg_iff stored_def intro!: nonnegMap_upd
        split: prod.splits sum.splits option.splits if_splits)
qed

lemma TransferFrom_nonneg:
  assumes "nonneg s" and "0 \<le> amountArg args"
    and "length args = 4 \<longrightarrow> stored s (args ! 2) + amountArg args \<le> maxInt"
  shows "nonneg (snd (TransferFrom s args))"
proof (cases "length args = 4")
  case False
  then show ?thesis
    using assms(1) by (simp add: TransferFrom_def)
next
  case True
  then have am: "amountArg args = fst (Atoi (args ! 3))"
    by (auto simp: amountArg_def last_conv_nth)
  have a: "0 \<le> fst (Atoi (args ! 3))"
    using assms(2) am by simp
  have b: "0 \<le> stored s (args ! 2)" "stored s (args ! 2) + fst (Atoi (args ! 3)) \<le> maxInt"
    using assms am True by (auto simp: nonneg_def)
  have m: "nonnegMap (state s)"
    using assms(1) by (simp add: nonneg_iff)
  have le: "fst (Atoi b) - fst (Atoi (args ! 3)) \<le> maxInt" for b
    using a Atoi_le_maxInt [of b] by linarith
  show ?thesis
    using True a b m le
    by (auto simp: TransferFrom_def stub_calls Let_def nonneg_iff stored_def
        intro!: nonnegMap_upd split: prod.splits sum.splits option.splits if_splits)
qed

text \<open>
  C6, as stated, fails: \<^verbatim>\<open>strconv.Atoi\<close> accepts a sign, and \<^verbatim>\<open>Mint\<close> with the amount
  \<^verbatim>\<open>-5\<close> on an account that is not stored succeeds and stores the balance -5.
\<close>

theorem Mint_negative_counterexample:
  "stored emptyStub ''a'' = 0 \<and>
   fst (Mint emptyStub [''a'', ''-5'']) = Success None \<and>
   state (snd (Mint emptyStub [''a'', ''-5''])) ''a'' = Some ''-5'' \<and>
   stored (snd (Mint emptyStub [''a'', ''-5''])) ''a'' = - 5"
proof -
  have v: "stored emptyStub ''a'' = 0"
    by (simp add: emptyStub_def stored_reliable)
  have p: "Atoi ''-5'' = (- 5, None)"
    by (simp add: Atoi_eval)
  have run: "Mint emptyStub [''a'', ''-5''] =
      (Success None,
       emptyStub\<lparr>state := (state emptyStub)(''a'' \<mapsto> Itoa (wrap (- 5))),
         event := Some (''Transfer'', \<lparr>From = [], To = ''a'', Value = - 5\<rparr>)\<rparr>)"
    using Mint_run [of "''-5''" "- 5" emptyStub "''a''"] v p
    by (simp add: emptyStub_def reliable_def)
  have w: "wrap (- 5) = - 5"
    by (simp add: wrap_def)
  have i: "Itoa (- 5) = ''-5''"
    by (simp add: Itoa_def FormatUint.simps digitChar_def digits_def)
  show ?thesis
    using v p by (simp add: run w i stored_def)
qed

text \<open>\<^verbatim>\<open>Approve\<close> stores a negative amount as the allowance.\<close>

lemma Approve_negative_example:
  "fst (Approve emptyStub [''o'', ''s'', ''-5'']) = Success None \<and>
   stored (snd (Approve emptyStub [''o'', ''s'', ''-5''])) ''allowanceos'' = - 5"
proof -
  have p: "Atoi ''-5'' = (- 5, None)"
    by (simp add: Atoi_eval)
  have r: "inInt (- 5)"
    by (simp add: inInt_eval)
  show ?thesis
    by (simp add: Approve_def p PutState_def emptyStub_def reliable_def allowancePrefix_def
        stored_def Atoi_Itoa [OF r])
qed

text \<open>
  C6, amended. The per-key contract does not reject a negative amount. What it keeps is
  this: if every stored value reads as at least 0, the amount (the last argument) reads as
  at least 0, and the one balance the invocation adds the amount to (the minter's for
  Mint, the recipient's for Transfer and TransferFrom; none for the other functions) plus
  the amount does not exceed the largest \<^verbatim>\<open>int\<close>, then after any invocation other than
  \<^verbatim>\<open>Initialize\<close>, successful or not, every stored value still reads as at least 0.
\<close>

theorem nonnegative_amounts_keep_nonneg:
  assumes "nonneg s" and "function \<noteq> ''Initialize''"
    and "0 \<le> amountArg args"
    and "creditFits s function args"
  shows "nonneg (snd (Invoke s function args))"
proof -
  have q: "snd (BalanceOf s args) = s" "snd (ClientAccountBalance s args) = s"
    "snd (ClientAccountID s args) = s" "snd (TotalSupply s args) = s"
    "snd (Allowance s args) = s" "snd (Name s args) = s" "snd (Symbol s args) = s"
    using BalanceOf_unchanged [OF surjective_pairing]
      ClientAccountBalance_unchanged [OF surjective_pairing]
      ClientAccountID_unchanged [OF surjective_pairing]
      TotalSupply_unchanged [OF surjective_pairing]
      Allowance_unchanged [OF surjective_pairing]
      Name_unchanged [OF surjective_pairing]
      Symbol_unchanged [OF surjective_pairing]
    by simp_all
  have mint: "function = ''Mint'' \<Longrightarrow>
      length args = 2 \<longrightarrow> stored s (args ! 0) + amountArg args \<le> maxInt"
    using assms(4) by (auto simp: creditFits_def creditedKey_def split: if_splits)
  have transfer: "function = ''Transfer'' \<Longrightarrow>
      length args = 3 \<longrightarrow> stored s (args ! 1) + amountArg args \<le> maxInt"
    using assms(4) by (auto simp: creditFits_def creditedKey_def split: if_splits)
  have transferFrom: "function = ''TransferFrom'' \<Longrightarrow>
      length args = 4 \<longrightarrow> stored s (args ! 2) + amountArg args \<le> maxInt"
    using assms(4) by (auto simp: creditFits_def creditedKey_def split: if_splits)
  show ?thesis
    using assms(1,2,3) q mint transfer transferFrom
    by (simp add: Invoke_def Mint_nonneg Burn_nonneg Transfer_nonneg Approve_nonneg
        TransferFrom_nonneg)
qed

text \<open>
  The witness runs on a store that holds the largest \<^verbatim>\<open>int\<close> under \<^verbatim>\<open>b\<close>: a transfer
  out of that balance and a burn from it.
\<close>

theorem nonnegative_amounts_keep_nonneg_witness:
  "nonneg overflowStub \<and>
   stored overflowStub ''b'' = 9223372036854775807 \<and>
   amountArg [''b'', ''a'', ''5''] = 5 \<and>
   creditFits overflowStub ''Transfer'' [''b'', ''a'', ''5''] \<and>
   nonneg (snd (Invoke overflowStub ''Transfer'' [''b'', ''a'', ''5''])) \<and>
   amountArg [''b'', ''5''] = 5 \<and>
   creditFits overflowStub ''Burn'' [''b'', ''5''] \<and>
   nonneg (snd (Invoke overflowStub ''Burn'' [''b'', ''5'']))"
proof -
  have a: "stored overflowStub k
      = (if k = ''a'' then 5 else if k = ''b'' then 9223372036854775807 else 0)" for k
    by (simp add: overflowStub_def stored_reliable Atoi_eval)
  have n: "nonneg overflowStub"
    by (simp add: nonneg_def a)
  have am: "amountArg [''b'', ''a'', ''5''] = 5" "amountArg [''b'', ''5''] = 5"
    by (simp_all add: amountArg_def Atoi_eval)
  have fits: "creditFits overflowStub ''Transfer'' [''b'', ''a'', ''5'']"
    "creditFits overflowStub ''Burn'' [''b'', ''5'']"
    by (simp_all add: creditFits_def creditedKey_def a am maxInt_def)
  have f: "''Transfer'' \<noteq> ''Initialize''" "''Burn'' \<noteq> ''Initialize''"
    by simp_all
  have z: "0 \<le> amountArg [''b'', ''a'', ''5'']" "0 \<le> amountArg [''b'', ''5'']"
    by (simp_all add: am)
  show ?thesis
    using nonnegative_amounts_keep_nonneg [OF n f(1) z(1) fits(1)]
      nonnegative_amounts_keep_nonneg [OF n f(2) z(2) fits(2)] n am fits a [of "''b''"]
    by simp
qed

section \<open>Sums that exceed the range\<close>

text \<open>
  C7, as stated, fails: in go/token\_erc\_20.go, with total supply and caller balance at the
  largest \<^verbatim>\<open>uint64\<close>, \<^verbatim>\<open>Mint(1)\<close> succeeds and stores 0 for both.
\<close>

theorem Mint_wraps_counterexample:
  "unat (Token_Total fullToken) = 2 ^ 64 - 1 \<and>
   fst (TokenERC20_Mint fullStub [''1'']) = Success None \<and>
   state (snd (TokenERC20_Mint fullStub [''1''])) ''token''
     = Some (fullToken\<lparr>Token_Total := 0, Token_Balance := [''6162'' \<mapsto> 0]\<rparr>)"
proof -
  have p: "ParseUint ''1'' 64 = (1, None)"
    by (simp add: Atoi_eval)
  have g: "getStateErr fullStub ''token'' = None" "state fullStub ''token'' = Some fullToken"
    "getCreatorErr fullStub = None" "putStateErr fullStub ''token'' = None"
    "setEventErr fullStub ''Transfer'' = None" "txCreator fullStub = ''ab''"
    by (simp_all add: fullStub_def reliable_def)
  have t: "Token_Total fullToken + 1 = 0"
    "mapIndex (Token_Balance fullToken) ''6162'' + 1 = 0"
    by (simp_all add: fullToken_def mapIndex_def)
  have u: "unat (Token_Total fullToken) = 2 ^ 64 - 1"
    by (simp add: fullToken_def)
  have m: "(Token_Balance fullToken)(''6162'' \<mapsto> 0) = [''6162'' \<mapsto> 0]"
    by (simp add: fullToken_def)
  show ?thesis
    using TokenERC20_Mint_run [OF p g(1) g(2) g(3) g(4) g(5)] u
    by (simp add: g(6) EncodeToString_ab t m)
qed

text \<open>
  C7, amended. No operation tests a sum. In go/token\_erc\_20.go a \<^verbatim>\<open>Mint\<close> with an amount
  that parses, on a stored token and with a host that accepts the calls, always succeeds,
  and the new total and the new balance of the caller are the old ones plus the amount
  modulo \<open>2 ^ 64\<close>. In token-erc-20\_peer.go a \<^verbatim>\<open>Mint\<close> with an amount that parses and a
  host that accepts the calls always succeeds, and the new balance is the old one plus
  the amount wrapped into the signed 64-bit range.
\<close>

theorem Mint_never_rejects_overflow:
  "(ParseUint a 64 = (n, None) \<and> getStateErr t ''token'' = None \<and>
    state t ''token'' = Some token \<and> getCreatorErr t = None \<and>
    putStateErr t ''token'' = None \<and> setEventErr t ''Transfer'' = None \<longrightarrow>
      fst (TokenERC20_Mint t [a]) = Success None \<and>
      (\<exists>token'. state (snd (TokenERC20_Mint t [a])) ''token'' = Some token' \<and>
         unat (Token_Total token') = (unat (Token_Total token) + n) mod 2 ^ 64 \<and>
         unat (mapIndex (Token_Balance token') (EncodeToString (txCreator t)))
           = (unat (mapIndex (Token_Balance token) (EncodeToString (txCreator t))) + n)
               mod 2 ^ 64)) \<and>
   (Atoi amt = (amount, None) \<and> getStateErr s minter = None \<and> putStateErr s minter = None \<and>
    setEventErr s ''Transfer'' = None \<longrightarrow>
      fst (Mint s [minter, amt]) = Success None \<and>
      stored (snd (Mint s [minter, amt])) minter = wrap (stored s minter + amount))"
proof (intro conjI impI)
  let ?c = "EncodeToString (txCreator t)"
  assume h: "ParseUint a 64 = (n, None) \<and> getStateErr t ''token'' = None \<and>
    state t ''token'' = Some token \<and> getCreatorErr t = None \<and>
    putStateErr t ''token'' = None \<and> setEventErr t ''Transfer'' = None"
  then have run: "TokenERC20_Mint t [a] =
      (Success None,
       t\<lparr>state := (state t)(''token'' \<mapsto>
           token\<lparr>Token_Total := Token_Total token + of_nat n,
                 Token_Balance := (Token_Balance token)
                   (?c \<mapsto> mapIndex (Token_Balance token) ?c + of_nat n)\<rparr>),
         event := Some (''Transfer'', ''Minted '' @ FormatUint n @ '' tokens to '' @ ?c)\<rparr>)"
    using TokenERC20_Mint_run [of a n t token] by simp
  have sum: "unat (x + of_nat n) = (unat x + n) mod 2 ^ 64" for x :: "64 word"
    by (simp add: unat_word_ariths unat_of_nat mod_add_right_eq)
  show "fst (TokenERC20_Mint t [a]) = Success None"
    by (simp add: run)
  show "\<exists>token'. state (snd (TokenERC20_Mint t [a])) ''token'' = Some token' \<and>
         unat (Token_Total token') = (unat (Token_Total token) + n) mod 2 ^ 64 \<and>
         unat (mapIndex (Token_Balance token') ?c)
           = (unat (mapIndex (Token_Balance token) ?c) + n) mod 2 ^ 64"
    by (simp add: run mapIndex_def sum)
next
  assume h: "Atoi amt = (amount, None) \<and> getStateErr s minter = None \<and>
    putStateErr s minter = None \<and> setEventErr s ''Transfer'' = None"
  then have run: "Mint s [minter, amt] =
      (Success None,
       s\<lparr>state := (state s)(minter \<mapsto> Itoa (wrap (stored s minter + amount))),
         event := Some (''Transfer'', \<lparr>From = [], To = minter, Value = amount\<rparr>)\<rparr>)"
    using Mint_run [of amt amount s minter] by simp
  show "fst (Mint s [minter, amt]) = Success None"
    by (simp add: run)
  show "stored (snd (Mint s [minter, amt])) minter = wrap (stored s minter + amount)"
    by (simp add: run stored_def Atoi_Itoa wrap_inInt)
qed

theorem Mint_never_rejects_overflow_witness:
  "fst (TokenERC20_Mint fullStub [''5'']) = Success None \<and>
   (\<exists>token'. state (snd (TokenERC20_Mint fullStub [''5''])) ''token'' = Some token' \<and>
      unat (Token_Total token') = 4 \<and>
      unat (mapIndex (Token_Balance token') ''6162'') = 4) \<and>
   fst (Mint overflowStub [''b'', ''5'']) = Success None \<and>
   stored (snd (Mint overflowStub [''b'', ''5''])) ''b'' = - 9223372036854775804"
proof -
  have g: "getStateErr fullStub ''token'' = None" "state fullStub ''token'' = Some fullToken"
    "getCreatorErr fullStub = None" "putStateErr fullStub ''token'' = None"
    "setEventErr fullStub ''Transfer'' = None" "txCreator fullStub = ''ab''"
    by (simp_all add: fullStub_def reliable_def)
  have u: "unat (Token_Total fullToken) = 18446744073709551615"
    "unat (mapIndex (Token_Balance fullToken) ''6162'') = 18446744073709551615"
    by (simp_all add: fullToken_def mapIndex_def)
  have p: "Atoi ''5'' = (5, None)"
    by (simp add: Atoi_eval)
  have o: "getStateErr overflowStub ''b'' = None" "putStateErr overflowStub ''b'' = None"
    "setEventErr overflowStub ''Transfer'' = None"
    by (simp_all add: overflowStub_def reliable_def)
  have b: "stored overflowStub ''b'' = 9223372036854775807"
    by (simp add: overflowStub_def stored_reliable Atoi_eval)
  have w: "wrap 9223372036854775812 = - 9223372036854775804"
    by (simp add: wrap_def)
  show ?thesis
    using Mint_never_rejects_overflow
      [of "''5''" 5 fullStub fullToken "''5''" 5 overflowStub "''b''"]
      g u p o b ParseUint_5
    by (simp add: EncodeToString_ab w)
qed

section \<open>Allowance\<close>

text \<open>
  C8, as stated, fails: on a store without any allowance the query is answered with the
  error \<^verbatim>\<open>Allowance not found\<close>.
\<close>

theorem Allowance_unset_counterexample:
  "state emptyStub (allowancePrefix @ ''o'' @ ''s'') = None \<and>
   Allowance emptyStub [''o'', ''s''] = (Error ''Allowance not found'', emptyStub)"
  by (simp add: Allowance_def GetState_def emptyStub_def reliable_def)

text \<open>
  C8, amended. When nothing is stored under the allowance key of owner and spender and the
  host answers the read, \<^verbatim>\<open>Allowance(owner, spender)\<close> responds with the error
  \<^verbatim>\<open>Allowance not found\<close> and leaves the stub unchanged.
\<close>

theorem Allowance_unset_is_error:
  assumes "state s (allowancePrefix @ owner @ spender) = None"
    and "getStateErr s (allowancePrefix @ owner @ spender) = None"
  shows "Allowance s [owner, spender] = (Error ''Allowance not found'', s)"
  using assms by (simp add: Allowance_def GetState_def)

theorem Allowance_unset_is_error_witness:
  "state supplyStub (allowancePrefix @ ''alice'' @ ''bob'') = None \<and>
   Allowance supplyStub [''alice'', ''bob''] = (Error ''Allowance not found'', supplyStub)"
proof -
  have a: "state supplyStub (allowancePrefix @ ''alice'' @ ''bob'') = None"
    "getStateErr supplyStub (allowancePrefix @ ''alice'' @ ''bob'') = None"
    by (simp_all add: supplyStub_def reliable_def allowancePrefix_def)
  show ?thesis
    using Allowance_unset_is_error [OF a] a(1) by simp
qed

section \<open>An empty recipient\<close>




text \<open>On a host that accepts the empty key the same call succeeds and credits that key.\<close>

lemma Transfer_empty_recipient_accepted_example:
  "fst (Transfer transferStub [''a'', [], ''4'']) = Success None \<and>
   stored (snd (Transfer transferStub [''a'', [], ''4''])) ''a'' = 6 \<and>
   state (snd (Transfer transferStub [''a'', [], ''4''])) [] = Some ''4''"
proof -
  have v: "stored transferStub ''a'' = 10" "stored transferStub [] = 0"
    by (simp_all add: transferStub_def stored_reliable Atoi_eval)
  have p: "Atoi ''4'' = (4, None)"
    by (simp add: Atoi_eval)
  have run: "Transfer transferStub [''a'', [], ''4''] =
      (Success None,
       transferStub\<lparr>state := (state transferStub)(''a'' \<mapsto> Itoa (wrap 6), [] \<mapsto> Itoa (wrap 4)),
         event := Some (''Transfer'', \<lparr>From = ''a'', To = [], Value = 4\<rparr>)\<rparr>)"
    using Transfer_run [of "''4''" 4 transferStub "''a''" "[]" "''10''"] v p
    by (simp add: transferStub_def reliable_def)
  have w: "wrap 6 = 6" "wrap 4 = 4" "inInt 6"
    by (simp_all add: wrap_def inInt_eval)
  have i: "Itoa 4 = ''4''"
    by (simp add: Itoa_def FormatUint.simps digitChar_def digits_def)
  show ?thesis
    using v by (simp add: run w i stored_def Atoi_Itoa)
qed



section \<open>ClientAccountBalance of the map-based contract\<close>

text \<open>
  C10. When the token is stored, its balance map has no entry for the hex-encoded caller
  and the host accepts the calls, \<^verbatim>\<open>ClientAccountBalance\<close> answers \<^verbatim>\<open>0\<close> and leaves a
  store whose token has a zero entry for the caller: the value under \<^verbatim>\<open>token\<close> is not the
  one before the query.
\<close>

theorem ClientAccountBalance_writes_zero_entry:
  assumes "getCreatorErr s = None" and "getStateErr s ''token'' = None"
    and "state s ''token'' = Some token"
    and "Token_Balance token (EncodeToString (txCreator s)) = None"
    and "putStateErr s ''token'' = None"
  shows "TokenERC20_ClientAccountBalance s =
           (Success (Some ''0''),
            s\<lparr>state := (state s)(''token'' \<mapsto>
                token\<lparr>Token_Balance :=
                  (Token_Balance token)(EncodeToString (txCreator s) \<mapsto> 0)\<rparr>)\<rparr>) \<and>
         state (snd (TokenERC20_ClientAccountBalance s)) ''token'' \<noteq> state s ''token''"
proof -
  let ?c = "EncodeToString (txCreator s)"
  let ?token' = "token\<lparr>Token_Balance := (Token_Balance token)(?c \<mapsto> 0)\<rparr>"
  have z: "FormatUint 0 = ''0''"
    by (simp add: FormatUint.simps digitChar_def digits_def)
  have run: "TokenERC20_ClientAccountBalance s =
      (Success (Some ''0''), s\<lparr>state := (state s)(''token'' \<mapsto> ?token')\<rparr>)"
    using assms
    by (simp add: TokenERC20_ClientAccountBalance_def GetCreator_def GetState_def PutState_def z)
  have "Token_Balance ?token' ?c \<noteq> Token_Balance token ?c"
    using assms(4) by simp
  then have "?token' \<noteq> token"
    by metis
  then show ?thesis
    using assms(3) by (simp add: run)
qed

theorem ClientAccountBalance_writes_zero_entry_witness:
  "Token_Balance goldToken (EncodeToString (txCreator strangerStub)) = None \<and>
   fst (TokenERC20_ClientAccountBalance strangerStub) = Success (Some ''0'') \<and>
   state (snd (TokenERC20_ClientAccountBalance strangerStub)) ''token''
     = Some (goldToken\<lparr>Token_Balance := [''6162'' \<mapsto> 1000, ''6364'' \<mapsto> 0]\<rparr>) \<and>
   state (snd (TokenERC20_ClientAccountBalance strangerStub)) ''token''
     \<noteq> state strangerStub ''token''"
proof -
  have c: "EncodeToString ''cd'' = ''6364''"
    by (simp add: EncodeToString_def hextable_def)
  have g: "getCreatorErr strangerStub = None" "getStateErr strangerStub ''token'' = None"
    "state strangerStub ''token'' = Some goldToken"
    "Token_Balance goldToken (EncodeToString (txCreator strangerStub)) = None"
    "putStateErr strangerStub ''token'' = None"
    by (simp_all add: strangerStub_def reliable_def goldToken_def c)
  have t: "txCreator strangerStub = ''cd''"
    by (simp add: strangerStub_def reliable_def)
  have m: "(Token_Balance goldToken)(''6364'' \<mapsto> 0) = [''6162'' \<mapsto> 1000, ''6364'' \<mapsto> 0]"
    by (simp add: goldToken_def)
  note th = ClientAccountBalance_writes_zero_entry [OF g]
  have run: "TokenERC20_ClientAccountBalance strangerStub =
      (Success (Some ''0''),
       strangerStub\<lparr>state := (state strangerStub)(''token'' \<mapsto>
         goldToken\<lparr>Token_Balance := [''6162'' \<mapsto> 1000, ''6364'' \<mapsto> 0]\<rparr>)\<rparr>)"
    using th by (simp add: t c m)
  have changed: "state (snd (TokenERC20_ClientAccountBalance strangerStub)) ''token''
      \<noteq> state strangerStub ''token''"
    by (rule th [THEN conjunct2])
  have response: "fst (TokenERC20_ClientAccountBalance strangerStub) = Success (Some ''0'')"
    by (simp add: run)
  have after: "state (snd (TokenERC20_ClientAccountBalance strangerStub)) ''token''
      = Some (goldToken\<lparr>Token_Balance := [''6162'' \<mapsto> 1000, ''6364'' \<mapsto> 0]\<rparr>)"
    by (simp add: run)
  show ?thesis
    using g(4) response after changed by blast
qed

section \<open>The other variants at the same points\<close>

text \<open>
  \<^verbatim>\<open>TransferFrom\<close> of token-erc-20-sc.go, called with \<^verbatim>\<open>[from, to, amount, owner]\<close>: the
  balance that goes down is the one stored under \<^verbatim>\<open>from\<close>, and the allowance is the one
  keyed by \<^verbatim>\<open>owner\<close> and \<^verbatim>\<open>from\<close>.
\<close>

lemma TransferFrom_sc_run:
  assumes "Atoi amt = (amount, None)"
    and "getStateErr s (allowancePrefix @ owner @ from) = None"
    and "getStateErr s from = None" and "getStateErr s to = None"
    and "state s (allowancePrefix @ owner @ from) = Some ab"
    and "state s from = Some fb"
    and "amount \<le> stored s (allowancePrefix @ owner @ from)"
    and "amount \<le> stored s from"
    and "putStateErr s from = None" and "putStateErr s to = None"
    and "putStateErr s (allowancePrefix @ owner @ from) = None"
    and "setEventErr s ''Transfer'' = None"
  shows "TransferFrom_sc s [from, to, amt, owner] =
           (Success None,
            s\<lparr>state := (state s)
                (from \<mapsto> Itoa (wrap (stored s from - amount)),
                 to \<mapsto> Itoa (wrap (stored s to + amount)),
                 allowancePrefix @ owner @ from \<mapsto>
                   Itoa (wrap (stored s (allowancePrefix @ owner @ from) - amount))),
              event := Some (''Transfer'', \<lparr>From = from, To = to, Value = amount\<rparr>)\<rparr>)"
  using assms
  by (simp add: TransferFrom_sc_def GetState_def PutState_def SetEvent_def stored_def)

text \<open>
  \<^verbatim>\<open>transfer\<close> of go/token\_erc\_20.go: the debit is made at the raw creator bytes, the
  credit at the receiver, whatever string it is.
\<close>

lemma TokenERC20_transfer_run:
  assumes "ParseUint a 64 = (n, None)"
    and "getStateErr s ''token'' = None" and "state s ''token'' = Some token"
    and "getCreatorErr s = None"
    and "\<not> mapIndex (Token_Balance token) (txCreator s) < of_nat n"
    and "putStateErr s ''token'' = None"
  shows "TokenERC20_transfer s [receiver, a] =
           (Success None,
            s\<lparr>state := (state s)(''token'' \<mapsto>
                token\<lparr>Token_Balance :=
                  ((Token_Balance token)
                     (txCreator s \<mapsto> mapIndex (Token_Balance token) (txCreator s) - of_nat n))
                  (receiver \<mapsto>
                     mapIndex ((Token_Balance token)
                       (txCreator s \<mapsto> mapIndex (Token_Balance token) (txCreator s) - of_nat n))
                       receiver + of_nat n)\<rparr>)\<rparr>)"
  using assms
  by (simp add: TokenERC20_transfer_def GetState_def PutState_def GetCreator_def Let_def)

lemma TokenERC20_transfer_empty_receiver_example:
  "fst (TokenERC20_transfer (reliable [''token'' \<mapsto> rawToken] ''ab'') [[], ''4'']) = Success None \<and>
   state (snd (TokenERC20_transfer (reliable [''token'' \<mapsto> rawToken] ''ab'') [[], ''4''])) ''token''
     = Some (rawToken\<lparr>Token_Balance := [''ab'' \<mapsto> 6, [] \<mapsto> 4]\<rparr>)"
proof -
  let ?s = "reliable [''token'' \<mapsto> rawToken] ''ab'' :: tokenstub"
  have p: "ParseUint ''4'' 64 = (4, None)"
    by (simp add: Atoi_eval)
  have g: "getStateErr ?s ''token'' = None" "state ?s ''token'' = Some rawToken"
    "getCreatorErr ?s = None"
    "\<not> mapIndex (Token_Balance rawToken) (txCreator ?s) < of_nat 4"
    "putStateErr ?s ''token'' = None"
    by (simp_all add: reliable_def rawToken_def mapIndex_def)
  have m: "((Token_Balance rawToken)(''ab'' \<mapsto> 6))([] \<mapsto> 4) = [''ab'' \<mapsto> 6, [] \<mapsto> 4]"
    by (simp add: rawToken_def)
  show ?thesis
    using TokenERC20_transfer_run [OF p g, of "[]"]
    by (simp add: reliable_def mapIndex_def rawToken_def)
qed

end
